theory Spec2Isabelle
  imports Complex_Main
begin

section \<open>Double-precision values\<close>

text \<open>
  The programs compute with C++ \<^verbatim>\<open>double\<close>. Several branches of the code test for NaN
  (\<^verbatim>\<open>tri_nominal != tri_nominal\<close>, \<^verbatim>\<open>ans != ans\<close>, \<^verbatim>\<open>!is_good\<close>), so a double is modelled
  as either NaN or a finite value. Finite values are computed with exactly, as reals:
  rounding, overflow to infinity and signed zeros are outside the model, except where a
  double is converted to an integer (the window of an observation, below), where the
  rounding is a parameter. NaN is absorbing for every arithmetic operation and makes
  every ordered comparison false, as in IEEE 754.
\<close>

datatype dbl = NaN | Fin real

fun is_nan :: "dbl \<Rightarrow> bool" where
  "is_nan NaN = True"
| "is_nan (Fin a) = False"

instantiation dbl :: comm_monoid_add
begin

fun plus_dbl :: "dbl \<Rightarrow> dbl \<Rightarrow> dbl" where
  "plus_dbl (Fin a) (Fin b) = Fin (a + b)"
| "plus_dbl _ _ = NaN"

definition zero_dbl :: dbl where
  "zero_dbl = Fin 0"

instance
proof (standard, goal_cases)
  case (1 x y z)
  show ?case
    by (cases x, simp, cases y, simp, cases z, simp_all)
next
  case (2 x y)
  show ?case
    by (cases x, (cases y, simp_all)+)
next
  case (3 x)
  show ?case
    by (cases x, simp_all add: zero_dbl_def)
qed

end

instantiation dbl :: "{minus, times}"
begin

fun minus_dbl :: "dbl \<Rightarrow> dbl \<Rightarrow> dbl" where
  "minus_dbl (Fin a) (Fin b) = Fin (a - b)"
| "minus_dbl _ _ = NaN"

fun times_dbl :: "dbl \<Rightarrow> dbl \<Rightarrow> dbl" where
  "times_dbl (Fin a) (Fin b) = Fin (a * b)"
| "times_dbl _ _ = NaN"

instance ..

end

text \<open>
  Every divisor in the modelled code is a nonzero constant (\<open>2\<close>, \<open>deltaPosition\<^sup>2\<close>,
  \<open>deltaQuat\<^sup>2\<close>). A zero divisor gives an infinity or NaN in IEEE arithmetic; the
  model, which has no infinities, answers NaN there.
\<close>

fun dbl_div :: "dbl \<Rightarrow> dbl \<Rightarrow> dbl" where
  "dbl_div (Fin a) (Fin b) = (if b = 0 then NaN else Fin (a / b))"
| "dbl_div _ _ = NaN"

text \<open>\<^verbatim>\<open>sqrt\<close> of a negative double is NaN.\<close>

fun dbl_sqrt :: "dbl \<Rightarrow> dbl" where
  "dbl_sqrt (Fin a) = (if a < 0 then NaN else Fin (sqrt a))"
| "dbl_sqrt NaN = NaN"

text \<open>\<^verbatim>\<open>a <= b\<close> on doubles: false as soon as one side is NaN.\<close>

fun dbl_le :: "dbl \<Rightarrow> dbl \<Rightarrow> bool" where
  "dbl_le (Fin a) (Fin b) = (a \<le> b)"
| "dbl_le _ _ = False"

text \<open>\<^verbatim>\<open>a != b\<close> on doubles: true as soon as one side is NaN.\<close>

fun dbl_ne :: "dbl \<Rightarrow> dbl \<Rightarrow> bool" where
  "dbl_ne (Fin a) (Fin b) = (a \<noteq> b)"
| "dbl_ne _ _ = True"

type_synonym Vector2 = "dbl \<times> dbl"
type_synonym Vector3 = "dbl \<times> dbl \<times> dbl"

text \<open>Componentwise \<^verbatim>\<open>operator-\<close> and \<^verbatim>\<open>operator+\<close> of \<^verbatim>\<open>vw::Vector2\<close>.\<close>

fun vec2_sub :: "Vector2 \<Rightarrow> Vector2 \<Rightarrow> Vector2" where
  "vec2_sub (a0, a1) (b0, b1) = (a0 - b0, a1 - b1)"

fun vec2_add :: "Vector2 \<Rightarrow> Vector2 \<Rightarrow> Vector2" where
  "vec2_add (a0, a1) (b0, b1) = (a0 + b0, a1 + b1)"

text \<open>\<^verbatim>\<open>norm_2\<close> of a \<^verbatim>\<open>vw::Vector2\<close>: the Euclidean norm.\<close>

fun norm_2 :: "Vector2 \<Rightarrow> dbl" where
  "norm_2 (a0, a1) = dbl_sqrt (a0 * a0 + a1 * a1)"

section \<open>jitter\_solve.cc: the linescan camera and its externals\<close>

text \<open>
  What can be thrown. \<^verbatim>\<open>vw_throw(ArgumentErr() << ...)\<close> throws \<^verbatim>\<open>vw::ArgumentErr\<close>, a class
  derived from \<^verbatim>\<open>std::exception\<close>. A library called by this code may throw another
  exception derived from \<^verbatim>\<open>std::exception\<close>, or an object of a class that is not: the
  source tells them apart, with \<^verbatim>\<open>catch (std::exception const& e)\<close> in the residual and
  \<^verbatim>\<open>catch (...)\<close> in the outlier filter.
\<close>

datatype exn = ArgumentErr | StdException | ForeignException

fun is_std_exception :: "exn \<Rightarrow> bool" where
  "is_std_exception ArgumentErr = True"
| "is_std_exception StdException = True"
| "is_std_exception ForeignException = False"

definition NUM_XYZ_PARAMS :: nat where
  "NUM_XYZ_PARAMS = 3"

definition NUM_QUAT_PARAMS :: nat where
  "NUM_QUAT_PARAMS = 4"

definition g_big_pixel_value :: dbl where
  "g_big_pixel_value = Fin 1000"

text \<open>
  The fields of \<^verbatim>\<open>UsgsAstroLsSensorModel\<close> that the solver reads and writes: the flat
  arrays of quaternion components (four per sample) and position components (three per
  sample), and the start time and step of each sequence.
\<close>

record UsgsAstroLsSensorModel =
  m_quaternions :: "dbl list"
  m_positions :: "dbl list"
  m_t0Quat :: dbl
  m_dtQuat :: dbl
  m_t0Ephem :: dbl
  m_dtEphem :: dbl

record ImageCoord =
  line :: dbl
  samp :: dbl

text \<open>
  What the camera library provides and this repository calls: \<^verbatim>\<open>getImageTime\<close> and
  \<^verbatim>\<open>groundToImage\<close> of the linescan model (the latter may throw, \<open>Inl\<close>), and the pixel
  conventions \<^verbatim>\<open>asp::toCsmPixel\<close> and \<^verbatim>\<open>asp::fromCsmPixel\<close>. They are parameters of the
  model.
\<close>

record csm_api =
  getImageTime :: "UsgsAstroLsSensorModel \<Rightarrow> ImageCoord \<Rightarrow> dbl"
  groundToImage :: "UsgsAstroLsSensorModel \<Rightarrow> Vector3 \<Rightarrow> dbl \<Rightarrow> exn + ImageCoord"
  toCsmPixel :: "Vector2 \<Rightarrow> ImageCoord"
  fromCsmPixel :: "ImageCoord \<Rightarrow> Vector2"

section \<open>jitter\_solve.cc: the window of trajectory samples of an observation\<close>

text \<open>
  Lines 479--518 end in \<^verbatim>\<open>static_cast<int>\<close>, which is not continuous: the last bit of
  the quotient decides the index. So here the rounding of every double operation is part
  of the model. \<open>rnd\<close> gives, for the exact result of an operation on two finite doubles,
  the double that the machine stores; it is a parameter. Where that result is too large
  for a double the machine stores an infinity, and the model, which has no infinities,
  has \<open>rnd\<close> answer NaN: on the way from a time to an index a value that is not finite
  stays so, and its conversion to \<^verbatim>\<open>int\<close> is undefined whichever it is. A zero divisor
  gives an infinity or NaN, here NaN.
\<close>

definition double_add :: "(real \<Rightarrow> dbl) \<Rightarrow> dbl \<Rightarrow> dbl \<Rightarrow> dbl" where
  "double_add rnd x y = (case (x, y) of (Fin a, Fin b) \<Rightarrow> rnd (a + b) | _ \<Rightarrow> NaN)"

definition double_sub :: "(real \<Rightarrow> dbl) \<Rightarrow> dbl \<Rightarrow> dbl \<Rightarrow> dbl" where
  "double_sub rnd x y = (case (x, y) of (Fin a, Fin b) \<Rightarrow> rnd (a - b) | _ \<Rightarrow> NaN)"

definition double_div :: "(real \<Rightarrow> dbl) \<Rightarrow> dbl \<Rightarrow> dbl \<Rightarrow> dbl" where
  "double_div rnd x y =
     (case (x, y) of (Fin a, Fin b) \<Rightarrow> if b = 0 then NaN else rnd (a / b) | _ \<Rightarrow> NaN)"

text \<open>The range of \<^verbatim>\<open>int\<close>, 32 bits wide on the platforms of the program.\<close>

definition INT_MIN :: int where
  "INT_MIN = - 2147483648"

definition INT_MAX :: int where
  "INT_MAX = 2147483647"

text \<open>
  \<^verbatim>\<open>static_cast<int>\<close> of a double: the fractional part is discarded (truncation toward
  zero). C++ defines the conversion only where the truncated value is an \<^verbatim>\<open>int\<close>; for
  any other double, NaN among them, the behaviour is undefined and the model answers
  \<open>None\<close>.
\<close>

definition static_cast_int :: "dbl \<Rightarrow> int option" where
  "static_cast_int x =
     (case x of
        NaN \<Rightarrow> None
      | Fin a \<Rightarrow>
          let t = (if 0 \<le> a then \<lfloor>a\<rfloor> else - \<lfloor>- a\<rfloor>)
          in if INT_MIN \<le> t \<and> t \<le> INT_MAX then Some t else None)"

text \<open>\<^verbatim>\<open>+\<close> and \<^verbatim>\<open>-\<close> of two \<^verbatim>\<open>int\<close>: undefined where the result is not an \<^verbatim>\<open>int\<close>.\<close>

definition int_add :: "int \<Rightarrow> int \<Rightarrow> int option" where
  "int_add a b = (if INT_MIN \<le> a + b \<and> a + b \<le> INT_MAX then Some (a + b) else None)"

definition int_sub :: "int \<Rightarrow> int \<Rightarrow> int option" where
  "int_sub a b = (if INT_MIN \<le> a - b \<and> a - b \<le> INT_MAX then Some (a - b) else None)"

text \<open>
  The conversion of a \<^verbatim>\<open>size_t\<close> to \<^verbatim>\<open>int\<close>, as in \<^verbatim>\<open>int numQuat = ...size() / ...\<close>: the
  value modulo \<open>2\<^sup>3\<^sup>2\<close>, read as a signed number.
\<close>

definition int_of_size :: "nat \<Rightarrow> int" where
  "int_of_size n =
     (let m = int n mod 4294967296 in if m \<le> INT_MAX then m else m - 4294967296)"

text \<open>
  Lines 493--500 (and 511--518): the two raw indices, the window grown around them, and
  the window kept in bounds. \<open>numPerObs\<close> is \<^verbatim>\<open>numQuatPerObs\<close> or \<^verbatim>\<open>numPosPerObs\<close>, both 8.
\<close>

definition index_window ::
  "(real \<Rightarrow> dbl) \<Rightarrow> int \<Rightarrow> int \<Rightarrow> dbl \<Rightarrow> dbl \<Rightarrow> dbl \<Rightarrow> dbl \<Rightarrow> (int \<times> int) option" where
  "index_window rnd numPerObs num t0 dt time1 time2 =
     (case static_cast_int (double_div rnd (double_sub rnd time1 t0) dt) of
        None \<Rightarrow> None
      | Some index1 \<Rightarrow>
     (case static_cast_int (double_div rnd (double_sub rnd time2 t0) dt) of
        None \<Rightarrow> None
      | Some index2 \<Rightarrow>
     (case int_sub (min index1 index2) (numPerObs div 2) of
        None \<Rightarrow> None
      | Some beg0 \<Rightarrow>
     (case int_add beg0 1 of
        None \<Rightarrow> None
      | Some begIndex \<Rightarrow>
     (case int_add (max index1 index2) (numPerObs div 2) of
        None \<Rightarrow> None
      | Some end0 \<Rightarrow>
     (case int_add end0 1 of
        None \<Rightarrow> None
      | Some endIndex \<Rightarrow>
          let begIndex = max 0 begIndex;
              endIndex = min endIndex num
          in Some (begIndex, endIndex)))))))"

record ObservationWindow =
  begQuatIndex :: int
  endQuatIndex :: int
  begPosIndex :: int
  endPosIndex :: int

text \<open>Lines 479--484: the imaging times at the observation's line minus and plus
  \<^verbatim>\<open>line_extra\<close>.\<close>

definition observation_times ::
  "(real \<Rightarrow> dbl) \<Rightarrow> csm_api \<Rightarrow> dbl \<Rightarrow> UsgsAstroLsSensorModel \<Rightarrow> Vector2 \<Rightarrow> dbl \<times> dbl" where
  "observation_times rnd api max_init_reproj_error cam observation =
     (let line_extra = double_add rnd max_init_reproj_error (Fin 5);
          imagePt1 = toCsmPixel api (double_sub rnd (fst observation) (Fin 0),
                                     double_sub rnd (snd observation) line_extra);
          imagePt2 = toCsmPixel api (double_add rnd (fst observation) (Fin 0),
                                     double_add rnd (snd observation) line_extra);
          time1 = getImageTime api cam imagePt1;
          time2 = getImageTime api cam imagePt2
      in (time1, time2))"

text \<open>Lines 487--500: the window into the quaternions.\<close>

definition quat_window ::
  "(real \<Rightarrow> dbl) \<Rightarrow> UsgsAstroLsSensorModel \<Rightarrow> dbl \<times> dbl \<Rightarrow> (int \<times> int) option" where
  "quat_window rnd cam obs_times =
     (let numQuatPerObs = 8;
          numQuat = int_of_size (length (m_quaternions cam) div NUM_QUAT_PARAMS);
          quatT0 = m_t0Quat cam;
          quatDt = m_dtQuat cam
      in index_window rnd numQuatPerObs numQuat quatT0 quatDt (fst obs_times) (snd obs_times))"

text \<open>Lines 505--518: the window into the positions.\<close>

definition pos_window ::
  "(real \<Rightarrow> dbl) \<Rightarrow> UsgsAstroLsSensorModel \<Rightarrow> dbl \<times> dbl \<Rightarrow> (int \<times> int) option" where
  "pos_window rnd cam obs_times =
     (let numPosPerObs = 8;
          numPos = int_of_size (length (m_positions cam) div NUM_XYZ_PARAMS);
          posT0 = m_t0Ephem cam;
          posDt = m_dtEphem cam
      in index_window rnd numPosPerObs numPos posT0 posDt (fst obs_times) (snd obs_times))"

text \<open>
  Lines 479--520 of \<^verbatim>\<open>run_jitter_solve\<close>, for one observation of camera \<open>cam\<close>: the window
  into the quaternions with its \<^verbatim>\<open>vw_throw\<close> of the book-keeping error, then the same for
  the positions. The result is \<open>None\<close> where the behaviour of the program is undefined.
\<close>

definition resolve_window ::
  "(real \<Rightarrow> dbl) \<Rightarrow> csm_api \<Rightarrow> dbl \<Rightarrow> UsgsAstroLsSensorModel \<Rightarrow> Vector2
     \<Rightarrow> (exn + ObservationWindow) option" where
  "resolve_window rnd api max_init_reproj_error cam observation =
     (let obs_times = observation_times rnd api max_init_reproj_error cam observation
      in case quat_window rnd cam obs_times of
           None \<Rightarrow> None
         | Some (begQuat, endQuat) \<Rightarrow>
             if begQuat \<ge> endQuat then Some (Inl ArgumentErr)
             else
               (case pos_window rnd cam obs_times of
                  None \<Rightarrow> None
                | Some (begPos, endPos) \<Rightarrow>
                    if begPos \<ge> endPos then Some (Inl ArgumentErr)
                    else Some (Inr \<lparr>begQuatIndex = begQuat, endQuatIndex = endQuat,
                                    begPosIndex = begPos, endPosIndex = endPos\<rparr>)))"

text \<open>
  The conversion as the specification words it, \<open>floor((time - t0)/dt)\<close>, with the same
  growth and clamping, for comparison with \<open>index_window\<close>.
\<close>

definition spec_floor_window :: "int \<Rightarrow> int \<Rightarrow> real \<Rightarrow> real \<Rightarrow> real \<Rightarrow> real \<Rightarrow> int \<times> int" where
  "spec_floor_window numPerObs num t0 dt time1 time2 =
     (let index1 = \<lfloor>(time1 - t0) / dt\<rfloor>;
          index2 = \<lfloor>(time2 - t0) / dt\<rfloor>;
          begIndex = max 0 (min index1 index2 - numPerObs div 2 + 1);
          endIndex = min (max index1 index2 + numPerObs div 2 + 1) num
      in (begIndex, endIndex))"

text \<open>
  A camera library for examples: a line is imaged every eighth of a second, starting at
  time zero; CSM pixels are shifted by half a pixel; a ground point projects to the pixel
  given by its first two coordinates, after the first quaternion and the first position
  component of the camera are added to them, when its third coordinate is not NaN, and
  the projection throws an exception derived from \<^verbatim>\<open>std::exception\<close> otherwise.
\<close>

definition example_api :: csm_api where
  "example_api =
     \<lparr>getImageTime = (\<lambda>cam ip. case line ip of Fin l \<Rightarrow> Fin (l / 8) | NaN \<Rightarrow> NaN),
      groundToImage = (\<lambda>cam P tol. case P of (x, y, z) \<Rightarrow>
                         if is_nan z then Inl StdException
                         else Inr \<lparr>line = y + hd (m_positions cam),
                                   samp = x + hd (m_quaternions cam)\<rparr>),
      toCsmPixel = (\<lambda>pix. \<lparr>line = snd pix + Fin (1/2), samp = fst pix + Fin (1/2)\<rparr>),
      fromCsmPixel = (\<lambda>ip. (samp ip - Fin (1/2), line ip - Fin (1/2)))\<rparr>"

text \<open>Twenty quaternion and twenty position samples at 1 Hz, starting at time \<open>t0\<close>.\<close>

definition example_cam :: "real \<Rightarrow> UsgsAstroLsSensorModel" where
  "example_cam t0 =
     \<lparr>m_quaternions = replicate 80 (Fin 0), m_positions = replicate 60 (Fin 0),
      m_t0Quat = Fin t0, m_dtQuat = Fin 1, m_t0Ephem = Fin t0, m_dtEphem = Fin 1\<rparr>"

text \<open>
  The times, steps and pixels in the examples of the window are multiples of \<open>1/16\<close> of
  small size: doubles, on which the operations of lines 479--518 are exact. The rounding
  of these examples leaves every result as it is.
\<close>

definition exact_rnd :: "real \<Rightarrow> dbl" where
  "exact_rnd x = Fin x"

section \<open>jitter\_solve.cc: the reprojection residual\<close>

text \<open>
  \<^verbatim>\<open>parameters\<close> is the array of parameter blocks handed over by the solver, here a list
  of blocks. Reading a block or a coordinate that is not there, like writing a
  \<^verbatim>\<open>std::vector\<close> outside its range, has no defined behaviour in C++: the model answers
  \<open>None\<close> there, and \<open>Some\<close> wherever the program has a result.
\<close>

definition read_param :: "dbl list list \<Rightarrow> int \<Rightarrow> nat \<Rightarrow> dbl option" where
  "read_param parameters k coord =
     (if 0 \<le> k \<and> k < int (length parameters) \<and> coord < length (parameters ! nat k)
      then Some (parameters ! nat k ! coord) else None)"

definition write_sample :: "dbl list \<Rightarrow> int \<Rightarrow> dbl \<Rightarrow> dbl list option" where
  "write_sample v i x = (if 0 \<le> i \<and> i < int (length v) then Some (v[nat i := x]) else None)"

text \<open>
  The inner loop of lines 82--85 and 92--95, over the coordinates of sample \<open>i\<close>:
  \<^verbatim>\<open>v[n * i + coord] = parameters[k][coord]\<close>.
\<close>

fun update_coords ::
  "nat \<Rightarrow> dbl list list \<Rightarrow> int \<Rightarrow> int \<Rightarrow> nat list \<Rightarrow> dbl list \<Rightarrow> dbl list option" where
  "update_coords n parameters k i [] v = Some v"
| "update_coords n parameters k i (coord # coords) v =
     (case read_param parameters k coord of
        None \<Rightarrow> None
      | Some x \<Rightarrow>
          (case write_sample v (int n * i + int coord) x of
             None \<Rightarrow> None
           | Some v' \<Rightarrow> update_coords n parameters k i coords v'))"

text \<open>
  The outer loop of lines 81--86 and 91--96, over the samples of the window; sample \<open>i\<close>
  is read from block \<open>i + shift - beg\<close>, and \<open>off\<close> is \<open>shift - beg\<close>.
\<close>

fun update_samples ::
  "nat \<Rightarrow> dbl list list \<Rightarrow> int \<Rightarrow> int list \<Rightarrow> dbl list \<Rightarrow> dbl list option" where
  "update_samples n parameters off [] v = Some v"
| "update_samples n parameters off (i # is) v =
     (case update_coords n parameters (i + off) i [0..<n] v of
        None \<Rightarrow> None
      | Some v' \<Rightarrow> update_samples n parameters off is v')"

text \<open>
  The residual object. \<^verbatim>\<open>m_ls_model\<close> is a pointer to a camera that the solver and the
  other residuals share: the cameras live in a store (the list \<^verbatim>\<open>ls_cams\<close>), and the
  pointer is a position in it.
\<close>

record pixelReprojectionError =
  m_observation :: Vector2
  m_ls_model :: nat
  m_begQuatIndex :: int
  m_endQuatIndex :: int
  m_begPosIndex :: int
  m_endPosIndex :: int

text \<open>
  Lines 77--96: the local \<^verbatim>\<open>cam\<close>, a copy of \<^verbatim>\<open>*m_ls_model\<close>, after the two loops have
  written the quaternions and the positions of the windows into it.
\<close>

definition local_cam ::
  "UsgsAstroLsSensorModel list \<Rightarrow> pixelReprojectionError \<Rightarrow> dbl list list
     \<Rightarrow> UsgsAstroLsSensorModel option" where
  "local_cam store r parameters =
     (if \<not> m_ls_model r < length store then None
      else
        let cam = store ! m_ls_model r;
            shift = 0
        in case update_samples NUM_QUAT_PARAMS parameters (shift - m_begQuatIndex r)
                  (upto (m_begQuatIndex r) (m_endQuatIndex r - 1)) (m_quaternions cam) of
             None \<Rightarrow> None
           | Some quaternions \<Rightarrow>
               let shift = shift + (m_endQuatIndex r - m_begQuatIndex r)
               in case update_samples NUM_XYZ_PARAMS parameters (shift - m_begPosIndex r)
                         (upto (m_begPosIndex r) (m_endPosIndex r - 1)) (m_positions cam) of
                    None \<Rightarrow> None
                  | Some positions \<Rightarrow>
                      Some (cam\<lparr>m_quaternions := quaternions, m_positions := positions\<rparr>))"

text \<open>Lines 99--103: the triangulated point, read from the last block.\<close>

definition param_point :: "pixelReprojectionError \<Rightarrow> dbl list list \<Rightarrow> Vector3 option" where
  "param_point r parameters =
     (let shift = (m_endQuatIndex r - m_begQuatIndex r) + (m_endPosIndex r - m_begPosIndex r)
      in case (read_param parameters shift 0, read_param parameters shift 1,
               read_param parameters shift 2) of
           (Some x, Some y, Some z) \<Rightarrow> Some (x, y, z)
         | _ \<Rightarrow> None)"

text \<open>
  What a call of \<^verbatim>\<open>operator()\<close> leaves behind: the value it returns with the two
  residuals it has written, or the exception that leaves it.
\<close>

datatype outcome = Returns bool Vector2 | Throws exn

text \<open>
  \<^verbatim>\<open>pixelReprojectionError::operator()\<close>, lines 72--122. The state is the store of the
  shared cameras, and the call returns it together with its outcome. An exception caught
  by \<^verbatim>\<open>catch (std::exception const& e)\<close> gives the residual \<^verbatim>\<open>g_big_pixel_value\<close> twice;
  any other exception is not caught.
\<close>

definition evaluate_residual ::
  "csm_api \<Rightarrow> pixelReprojectionError \<Rightarrow> UsgsAstroLsSensorModel list \<Rightarrow> dbl list list
     \<Rightarrow> (outcome \<times> UsgsAstroLsSensorModel list) option" where
  "evaluate_residual api r store parameters =
     (case local_cam store r parameters of
        None \<Rightarrow> None
      | Some cam \<Rightarrow>
          (case param_point r parameters of
             None \<Rightarrow> None
           | Some P \<Rightarrow>
               let desired_precision = Fin (1 / 10 ^ 12)
               in (case groundToImage api cam P desired_precision of
                     Inl e \<Rightarrow>
                       if is_std_exception e
                       then Some (Returns True (g_big_pixel_value, g_big_pixel_value), store)
                       else Some (Throws e, store)
                   | Inr imagePt \<Rightarrow>
                       let pix = fromCsmPixel api imagePt
                       in Some (Returns True (fst pix - fst (m_observation r),
                                              snd pix - snd (m_observation r)), store))))"

text \<open>
  The calls the solver makes (\<^verbatim>\<open>pixelReprojectionError::Create\<close>, lines 141--147, and the
  windows of lines 499--520): the pointer is valid, the windows lie within the samples
  of the camera, and there is one block of four values for each quaternion of the
  window, then one block of three values for each position, then the block of the point.
\<close>

definition well_formed_call ::
  "UsgsAstroLsSensorModel list \<Rightarrow> pixelReprojectionError \<Rightarrow> dbl list list \<Rightarrow> bool" where
  "well_formed_call store r parameters =
     (m_ls_model r < length store
      \<and> 0 \<le> m_begQuatIndex r \<and> m_begQuatIndex r \<le> m_endQuatIndex r
      \<and> m_endQuatIndex r
          \<le> int (length (m_quaternions (store ! m_ls_model r)) div NUM_QUAT_PARAMS)
      \<and> 0 \<le> m_begPosIndex r \<and> m_begPosIndex r \<le> m_endPosIndex r
      \<and> m_endPosIndex r
          \<le> int (length (m_positions (store ! m_ls_model r)) div NUM_XYZ_PARAMS)
      \<and> int (length parameters)
          = (m_endQuatIndex r - m_begQuatIndex r) + (m_endPosIndex r - m_begPosIndex r) + 1
      \<and> (\<forall>k < length parameters.
            length (parameters ! k)
              = (if int k < m_endQuatIndex r - m_begQuatIndex r
                 then NUM_QUAT_PARAMS else NUM_XYZ_PARAMS)))"

text \<open>
  An example call: the camera at address 0 of a store of two cameras, the quaternions 1
  and 2 and the position 0 in the windows, and four blocks.
\<close>

definition example_store :: "UsgsAstroLsSensorModel list" where
  "example_store = [example_cam 0, example_cam 2]"

definition example_residual :: pixelReprojectionError where
  "example_residual =
     \<lparr>m_observation = (Fin 10, Fin 0), m_ls_model = 0,
      m_begQuatIndex = 1, m_endQuatIndex = 3, m_begPosIndex = 0, m_endPosIndex = 1\<rparr>"

definition example_parameters :: "dbl \<Rightarrow> dbl list list" where
  "example_parameters z =
     [[Fin 1, Fin 2, Fin 3, Fin 4], [Fin 5, Fin 6, Fin 7, Fin 8],
      [Fin 9, Fin 10, Fin 11], [Fin 20, Fin 30, z]]"

text \<open>The same camera library, with a projection that throws an object of a class not
  derived from \<^verbatim>\<open>std::exception\<close>.\<close>

definition foreign_api :: csm_api where
  "foreign_api = example_api\<lparr>groundToImage := (\<lambda>cam P tol. Inl ForeignException)\<rparr>"

section \<open>jitter\_solve.cc: the initial outliers and the residual blocks\<close>

text \<open>
  An observation of the camera relation network: the index of its tie point and the
  observed pixel. The network has one list of observations for each camera.
\<close>

record JFeature =
  m_point_id :: nat
  m_location :: Vector2

text \<open>
  A camera of the run: the projection \<^verbatim>\<open>point_to_pixel\<close> of \<^verbatim>\<open>opt.camera_models[icam]\<close>,
  which may throw, and the linescan model \<^verbatim>\<open>ls_cams[icam]\<close> beneath it.
\<close>

record Camera =
  point_to_pixel :: "Vector3 \<Rightarrow> exn + Vector2"
  ls_cam :: UsgsAstroLsSensorModel

text \<open>Line 443: \<^verbatim>\<open>norm_2(pix - observation) <= opt.max_init_reproj_error\<close>.\<close>

definition is_good :: "Vector2 \<Rightarrow> Vector2 \<Rightarrow> dbl \<Rightarrow> bool" where
  "is_good pix observation max_init_reproj_error =
     dbl_le (norm_2 (vec2_sub pix observation)) max_init_reproj_error"

text \<open>
  The inner loop of lines 419--452, over the observations of camera \<open>icam\<close>.
  \<open>tri_points\<close> holds the triangulated point of every tie point. The two \<^verbatim>\<open>VW_ASSERT\<close>
  throw; every exception of the projection is caught by \<^verbatim>\<open>catch(...)\<close>.
\<close>

fun flag_features ::
  "Camera list \<Rightarrow> Vector3 list \<Rightarrow> dbl \<Rightarrow> nat \<Rightarrow> JFeature list \<Rightarrow> nat set \<Rightarrow> exn + nat set" where
  "flag_features cams tri_points mx icam [] outliers = Inr outliers"
| "flag_features cams tri_points mx icam (f # fiter) outliers =
     (let ipt = m_point_id f
      in if \<not> icam < length cams then Inl ArgumentErr
         else if \<not> ipt < length tri_points then Inl ArgumentErr
         else if ipt \<in> outliers then flag_features cams tri_points mx icam fiter outliers
         else
           let observation = m_location f;
               P = tri_points ! ipt
           in case point_to_pixel (cams ! icam) P of
                Inl e \<Rightarrow> flag_features cams tri_points mx icam fiter (insert ipt outliers)
              | Inr pix \<Rightarrow>
                  if \<not> is_good pix observation mx
                  then flag_features cams tri_points mx icam fiter (insert ipt outliers)
                  else flag_features cams tri_points mx icam fiter outliers)"

text \<open>The outer loop of lines 417--453, over the cameras.\<close>

fun flag_cameras ::
  "Camera list \<Rightarrow> Vector3 list \<Rightarrow> dbl \<Rightarrow> JFeature list list \<Rightarrow> nat list \<Rightarrow> nat set
     \<Rightarrow> exn + nat set" where
  "flag_cameras cams tri_points mx crn [] outliers = Inr outliers"
| "flag_cameras cams tri_points mx crn (icam # icams) outliers =
     (case flag_features cams tri_points mx icam (crn ! icam) outliers of
        Inl e \<Rightarrow> Inl e
      | Inr outliers' \<Rightarrow> flag_cameras cams tri_points mx crn icams outliers')"

text \<open>
  Lines 416--453, from a given set of outliers; the program starts from the empty set.
\<close>

definition flag_outliers ::
  "Camera list \<Rightarrow> Vector3 list \<Rightarrow> dbl \<Rightarrow> JFeature list list \<Rightarrow> nat set \<Rightarrow> exn + nat set" where
  "flag_outliers cams tri_points mx crn outliers =
     flag_cameras cams tri_points mx crn [0..<length crn] outliers"

definition initial_outliers ::
  "Camera list \<Rightarrow> Vector3 list \<Rightarrow> dbl \<Rightarrow> JFeature list list \<Rightarrow> exn + nat set" where
  "initial_outliers cams tri_points mx crn = flag_outliers cams tri_points mx crn {}"

text \<open>A residual block handed to the solver: the observation, its camera, its tie point
  and the windows of the camera's samples it depends on.\<close>

record ResidualBlock =
  rb_observation :: Vector2
  rb_icam :: nat
  rb_ipt :: nat
  rb_window :: ObservationWindow

text \<open>The inner loop of lines 461--543; the book-keeping error ends the run, and so
  does a window whose computation is undefined (\<open>None\<close>).\<close>

fun add_blocks_features ::
  "(real \<Rightarrow> dbl) \<Rightarrow> csm_api \<Rightarrow> dbl \<Rightarrow> Camera list \<Rightarrow> nat set \<Rightarrow> nat \<Rightarrow> JFeature list
     \<Rightarrow> ResidualBlock list \<Rightarrow> (exn + ResidualBlock list) option" where
  "add_blocks_features rnd api mx cams outliers icam [] problem = Some (Inr problem)"
| "add_blocks_features rnd api mx cams outliers icam (f # fiter) problem =
     (let ipt = m_point_id f
      in if ipt \<in> outliers then add_blocks_features rnd api mx cams outliers icam fiter problem
         else
           let observation = m_location f
           in case resolve_window rnd api mx (ls_cam (cams ! icam)) observation of
                None \<Rightarrow> None
              | Some (Inl e) \<Rightarrow> Some (Inl e)
              | Some (Inr w) \<Rightarrow>
                  add_blocks_features rnd api mx cams outliers icam fiter
                    (problem @ [\<lparr>rb_observation = observation, rb_icam = icam,
                                 rb_ipt = ipt, rb_window = w\<rparr>]))"

text \<open>The outer loop of lines 459--544.\<close>

fun add_blocks_cameras ::
  "(real \<Rightarrow> dbl) \<Rightarrow> csm_api \<Rightarrow> dbl \<Rightarrow> Camera list \<Rightarrow> nat set \<Rightarrow> JFeature list list \<Rightarrow> nat list
     \<Rightarrow> ResidualBlock list \<Rightarrow> (exn + ResidualBlock list) option" where
  "add_blocks_cameras rnd api mx cams outliers crn [] problem = Some (Inr problem)"
| "add_blocks_cameras rnd api mx cams outliers crn (icam # icams) problem =
     (case add_blocks_features rnd api mx cams outliers icam (crn ! icam) problem of
        None \<Rightarrow> None
      | Some (Inl e) \<Rightarrow> Some (Inl e)
      | Some (Inr problem') \<Rightarrow> add_blocks_cameras rnd api mx cams outliers crn icams problem')"

definition add_residual_blocks ::
  "(real \<Rightarrow> dbl) \<Rightarrow> csm_api \<Rightarrow> dbl \<Rightarrow> Camera list \<Rightarrow> nat set \<Rightarrow> JFeature list list
     \<Rightarrow> (exn + ResidualBlock list) option" where
  "add_residual_blocks rnd api mx cams outliers crn =
     add_blocks_cameras rnd api mx cams outliers crn [0..<length crn] []"

text \<open>
  Lines 388--544 of \<^verbatim>\<open>run_jitter_solve\<close>: the checks on the numbers of cameras, of
  triangulated points and of lists in the network, then the outliers, then the blocks.
\<close>

definition setup_problem ::
  "(real \<Rightarrow> dbl) \<Rightarrow> csm_api \<Rightarrow> dbl \<Rightarrow> Camera list \<Rightarrow> Vector3 list \<Rightarrow> JFeature list list
     \<Rightarrow> (exn + (nat set \<times> ResidualBlock list)) option" where
  "setup_problem rnd api mx cams tri_points crn =
     (if length cams < 2 then Some (Inl ArgumentErr)
      else if length tri_points = 0 then Some (Inl ArgumentErr)
      else if length crn \<noteq> length cams then Some (Inl ArgumentErr)
      else case initial_outliers cams tri_points mx crn of
             Inl e \<Rightarrow> Some (Inl e)
           | Inr outliers \<Rightarrow>
               (case add_residual_blocks rnd api mx cams outliers crn of
                  None \<Rightarrow> None
                | Some (Inl e) \<Rightarrow> Some (Inl e)
                | Some (Inr problem) \<Rightarrow> Some (Inr (outliers, problem))))"

text \<open>
  An example network. Two cameras in front of the example linescan model, the first
  projecting a point to its first two coordinates, the second throwing where the third
  coordinate is NaN; three tie points; the observation of tie point 1 in the first camera
  lies 50 pixels from the projection, where 5 are allowed.
\<close>

definition example_cameras :: "Camera list" where
  "example_cameras =
     [\<lparr>point_to_pixel = (\<lambda>P. case P of (x, y, z) \<Rightarrow> Inr (x, y)), ls_cam = example_cam 0\<rparr>,
      \<lparr>point_to_pixel = (\<lambda>P. case P of (x, y, z) \<Rightarrow>
                           if is_nan z then Inl ForeignException else Inr (x, y)),
       ls_cam = example_cam 0\<rparr>]"

definition example_tri_points :: "Vector3 list" where
  "example_tri_points =
     [(Fin 10, Fin 0, Fin 0), (Fin 20, Fin 30, Fin 0), (Fin 40, Fin 50, NaN)]"

definition example_crn :: "JFeature list list" where
  "example_crn =
     [[\<lparr>m_point_id = 0, m_location = (Fin 10, Fin 0)\<rparr>,
       \<lparr>m_point_id = 1, m_location = (Fin 20, Fin 80)\<rparr>,
       \<lparr>m_point_id = 2, m_location = (Fin 40, Fin 50)\<rparr>],
      [\<lparr>m_point_id = 0, m_location = (Fin 13, Fin 4)\<rparr>,
       \<lparr>m_point_id = 1, m_location = (Fin 20, Fin 30)\<rparr>,
       \<lparr>m_point_id = 2, m_location = (Fin 40, Fin 50)\<rparr>]]"

text \<open>
  For stating what the filter computes: the observation \<open>f\<close> of camera \<open>icam\<close> is rejected
  when the projection of its triangulated point throws, or when the test of line 443
  fails; and the two assertions hold for all observations of a camera.
\<close>

definition rejected :: "Camera list \<Rightarrow> Vector3 list \<Rightarrow> dbl \<Rightarrow> nat \<Rightarrow> JFeature \<Rightarrow> bool" where
  "rejected cams tri_points mx icam f =
     (case point_to_pixel (cams ! icam) (tri_points ! m_point_id f) of
        Inl e \<Rightarrow> True
      | Inr pix \<Rightarrow> \<not> dbl_le (norm_2 (vec2_sub pix (m_location f))) mx)"

definition asserts_hold :: "Camera list \<Rightarrow> Vector3 list \<Rightarrow> nat \<Rightarrow> JFeature list \<Rightarrow> bool" where
  "asserts_hold cams tri_points icam fs =
     (fs = [] \<or> (icam < length cams \<and> (\<forall>f\<in>set fs. m_point_id f < length tri_points)))"

section \<open>CameraUtils.cc: loading the cameras, and the number of threads\<close>

text \<open>
  What \<^verbatim>\<open>load_camera\<close> uses of the session that \<^verbatim>\<open>StereoSessionFactory::create\<close> makes
  for an image and its camera file: the session name the factory settles on (it writes
  it back into \<^verbatim>\<open>stereo_session\<close>), whether the session supports multi-threading, and
  the camera model it loads. The type of camera models is left open.
\<close>

record 'cam StereoSession =
  session_name :: string
  supports_multi_threading :: bool
  camera_model :: 'cam

text \<open>
  The libraries behind \<^verbatim>\<open>load_camera\<close>: the factory, called with the session name, the
  image file and the camera file, and the replacement of the lens distortion of a
  pinhole camera by its fast approximation.
\<close>

record 'cam session_api =
  create :: "string \<Rightarrow> string \<Rightarrow> string \<Rightarrow> 'cam StereoSession"
  update_pinhole_for_fast_point2pixel :: "string \<Rightarrow> 'cam \<Rightarrow> 'cam"

text \<open>\<^verbatim>\<open>load_camera\<close>, lines 38--74: its three outputs, the session name, the camera
  model and \<^verbatim>\<open>single_threaded_camera\<close>.\<close>

definition load_camera ::
  "'cam session_api \<Rightarrow> string \<Rightarrow> string \<Rightarrow> bool \<Rightarrow> string \<Rightarrow> string \<times> 'cam \<times> bool" where
  "load_camera api image_file camera_file approximate_pinhole_intrinsics stereo_session =
     (let session = create api stereo_session image_file camera_file;
          stereo_session = session_name session;
          camera_model = camera_model session;
          single_threaded_camera = (\<not> supports_multi_threading session);
          camera_model = (if approximate_pinhole_intrinsics
                          then update_pinhole_for_fast_point2pixel api image_file camera_model
                          else camera_model)
      in (stereo_session, camera_model, single_threaded_camera))"

text \<open>
  The loop of \<^verbatim>\<open>load_cameras\<close>, lines 98--110, over the indices \<open>i\<close>. The state is the
  three outputs: \<^verbatim>\<open>stereo_session\<close>, \<^verbatim>\<open>single_threaded_camera\<close> and \<^verbatim>\<open>camera_models\<close>, a
  vector of pointers that are null (\<open>None\<close>) until a camera is loaded.
\<close>

fun load_cameras_loop ::
  "'cam session_api \<Rightarrow> string list \<Rightarrow> string list \<Rightarrow> bool \<Rightarrow> nat list
     \<Rightarrow> string \<times> bool \<times> 'cam option list \<Rightarrow> string \<times> bool \<times> 'cam option list" where
  "load_cameras_loop api image_files camera_files approx [] state = state"
| "load_cameras_loop api image_files camera_files approx (i # rest)
     (stereo_session, single_threaded_camera, camera_models) =
     (let local_single_threaded_camera = False;
          local_stereo_session = stereo_session;
          (local_stereo_session, model, local_single_threaded_camera) =
             load_camera api (image_files ! i) (camera_files ! i) approx local_stereo_session;
          camera_models = camera_models[i := Some model];
          single_threaded_camera = local_single_threaded_camera;
          stereo_session = local_stereo_session
      in load_cameras_loop api image_files camera_files approx rest
           (stereo_session, single_threaded_camera, camera_models))"

text \<open>\<^verbatim>\<open>load_cameras\<close>, lines 77--113.\<close>

definition load_cameras ::
  "'cam session_api \<Rightarrow> string list \<Rightarrow> string list \<Rightarrow> bool \<Rightarrow> string
     \<Rightarrow> exn + (string \<times> bool \<times> 'cam option list)" where
  "load_cameras api image_files camera_files approx stereo_session =
     (if length image_files \<noteq> length camera_files then Inl ArgumentErr
      else
        let camera_models = replicate (length image_files) None;
            single_threaded_camera = False
        in Inr (load_cameras_loop api image_files camera_files approx [0..<length image_files]
                  (stereo_session, single_threaded_camera, camera_models)))"

text \<open>
  jitter\_solve.cc: the number of threads of the solver (lines 633--636) and of the
  evaluation of the residuals (\<^verbatim>\<open>compute_residuals\<close>, lines 284--287), from the flag
  \<^verbatim>\<open>opt.single_threaded_cameras\<close> and the option \<^verbatim>\<open>opt.num_threads\<close>.
\<close>

definition solver_num_threads :: "bool \<Rightarrow> int \<Rightarrow> int" where
  "solver_num_threads single_threaded_cameras num_threads =
     (if single_threaded_cameras then 1 else num_threads)"

definition eval_num_threads :: "bool \<Rightarrow> int \<Rightarrow> int" where
  "eval_num_threads single_threaded_cameras num_threads =
     (if single_threaded_cameras then 1 else num_threads)"

text \<open>
  Lines 299--304 of \<^verbatim>\<open>run_jitter_solve\<close> with the two settings: the cameras are loaded
  without the approximation of pinhole intrinsics, the flag goes into the options, and
  the result is the pair of thread numbers of the solver and of the evaluation.
\<close>

definition jitter_threads ::
  "'cam session_api \<Rightarrow> string list \<Rightarrow> string list \<Rightarrow> string \<Rightarrow> int \<Rightarrow> exn + (int \<times> int)" where
  "jitter_threads api image_files camera_files stereo_session num_threads =
     (case load_cameras api image_files camera_files False stereo_session of
        Inl e \<Rightarrow> Inl e
      | Inr (stereo_session', single_threaded_cameras, camera_models) \<Rightarrow>
          Inr (solver_num_threads single_threaded_cameras num_threads,
               eval_num_threads single_threaded_cameras num_threads))"

text \<open>
  An example factory: the session of an image whose name ends in \<open>.cub\<close> does not support
  multi-threading, every other session does; the camera model is the name of the camera
  file.
\<close>

definition example_sessions :: "string session_api" where
  "example_sessions =
     \<lparr>create = (\<lambda>stereo_session image_file camera_file.
                  \<lparr>session_name = stereo_session,
                   supports_multi_threading = (\<not> (drop (length image_file - 4) image_file = ''.cub'')),
                   camera_model = camera_file\<rparr>),
      update_pinhole_for_fast_point2pixel = (\<lambda>image_file cam. cam)\<rparr>"

section \<open>Covariance.cc: vectors, matrices and cameras\<close>

text \<open>
  A \<^verbatim>\<open>vw::Matrix<double>\<close> (also the fixed-size \<^verbatim>\<open>Matrix3x3\<close> and \<^verbatim>\<open>Matrix4x4\<close>) is its
  entries by row and column; the sizes are those the code gives: 3 by 14 for \<open>J\<close>, 14 by
  14 for \<open>C\<close>, 3 by 3 for \<open>P\<close>.
\<close>

type_synonym Matrix = "nat \<times> nat \<Rightarrow> dbl"

fun vec3_add :: "Vector3 \<Rightarrow> Vector3 \<Rightarrow> Vector3" where
  "vec3_add (a0, a1, a2) (b0, b1, b2) = (a0 + b0, a1 + b1, a2 + b2)"

fun vec3_sub :: "Vector3 \<Rightarrow> Vector3 \<Rightarrow> Vector3" where
  "vec3_sub (a0, a1, a2) (b0, b1, b2) = (a0 - b0, a1 - b1, a2 - b2)"

text \<open>A vector divided by a scalar.\<close>

fun vec3_div :: "Vector3 \<Rightarrow> dbl \<Rightarrow> Vector3" where
  "vec3_div (a0, a1, a2) s = (dbl_div a0 s, dbl_div a1 s, dbl_div a2 s)"

text \<open>\<^verbatim>\<open>v[row]\<close> for \<open>row\<close> 0, 1 or 2.\<close>

fun vec3_at :: "Vector3 \<Rightarrow> nat \<Rightarrow> dbl" where
  "vec3_at (a0, a1, a2) row = (if row = 0 then a0 else if row = 1 then a1 else a2)"

text \<open>
  \<^verbatim>\<open>operator!=\<close> of vectors: some component differs. A vector differs from itself exactly
  when it has a NaN component.
\<close>

fun vec3_ne :: "Vector3 \<Rightarrow> Vector3 \<Rightarrow> bool" where
  "vec3_ne (a0, a1, a2) (b0, b1, b2) = (dbl_ne a0 b0 \<or> dbl_ne a1 b1 \<or> dbl_ne a2 b2)"

fun vec2_ne :: "Vector2 \<Rightarrow> Vector2 \<Rightarrow> bool" where
  "vec2_ne (a0, a1) (b0, b1) = (dbl_ne a0 b0 \<or> dbl_ne a1 b1)"

text \<open>The product of a 3 by 3 matrix and a vector.\<close>

fun mat3_vec :: "Matrix \<Rightarrow> Vector3 \<Rightarrow> Vector3" where
  "mat3_vec M (v0, v1, v2) =
     (M (0, 0) * v0 + M (0, 1) * v1 + M (0, 2) * v2,
      M (1, 0) * v0 + M (1, 1) * v1 + M (1, 2) * v2,
      M (2, 0) * v0 + M (2, 1) * v1 + M (2, 2) * v2)"

text \<open>The product of a matrix with \<open>n\<close> columns and a matrix with \<open>n\<close> rows, and the
  transpose.\<close>

definition mat_mul :: "nat \<Rightarrow> Matrix \<Rightarrow> Matrix \<Rightarrow> Matrix" where
  "mat_mul n A B = (\<lambda>(r, c). sum_list (map (\<lambda>k. A (r, k) * B (k, c)) [0..<n]))"

definition transpose_mat :: "Matrix \<Rightarrow> Matrix" where
  "transpose_mat A = (\<lambda>(r, c). A (c, r))"

text \<open>\<^verbatim>\<open>det\<close> of a 2 by 2 matrix.\<close>

definition det2 :: "Matrix \<Rightarrow> dbl" where
  "det2 H = H (0, 0) * H (1, 1) - H (0, 1) * H (1, 0)"

text \<open>
  What the code asks of a \<^verbatim>\<open>DGCameraModel\<close>, and of each of its perturbed copies: the
  direction of the ray through a pixel and the camera center at that pixel.
\<close>

record DGView =
  pixel_to_vector :: "Vector2 \<Rightarrow> Vector3"
  camera_center :: "Vector2 \<Rightarrow> Vector3"

record Datum =
  cartesian_to_geodetic :: "Vector3 \<Rightarrow> Vector3"
  lonlat_to_ned_matrix :: "Vector2 \<Rightarrow> Matrix"

text \<open>
  Modelled from the spec: the constants \<^verbatim>\<open>SAT_POS_COV_SIZE\<close> and \<^verbatim>\<open>SAT_QUAT_COV_SIZE\<close>,
  declared in a header that is not among the sources. The specification gives the
  interpolated covariances 6 and 10 symmetric entries, the upper triangles of a 3 by 3
  and of a 4 by 4 matrix.
\<close>

definition SAT_POS_COV_SIZE :: nat where
  "SAT_POS_COV_SIZE = 6"

definition SAT_QUAT_COV_SIZE :: nat where
  "SAT_QUAT_COV_SIZE = 10"

text \<open>
  A DigitalGlobe camera: its own rays, its perturbed copies, the interpolation of the
  satellite covariances at a pixel (it fills an array, given here by its entries), and
  its datum.
\<close>

record DGCameraModel = DGView +
  m_perturbed_cams :: "DGView list"
  interpSatellitePosCov :: "Vector2 \<Rightarrow> nat \<Rightarrow> dbl"
  interpSatelliteQuatCov :: "Vector2 \<Rightarrow> nat \<Rightarrow> dbl"
  datum :: Datum

text \<open>
  A camera is a DigitalGlobe camera or a camera of another kind, and it comes as it is or
  wrapped in an \<^verbatim>\<open>AdjustedCameraModel\<close> with its 4 by 4 transform.
\<close>

datatype BaseCamera = DG DGCameraModel | OtherCamera

datatype CameraModel = Unadjusted BaseCamera | Adjusted Matrix BaseCamera

fun unadjusted_model :: "CameraModel \<Rightarrow> BaseCamera" where
  "unadjusted_model (Unadjusted b) = b"
| "unadjusted_model (Adjusted t b) = b"

text \<open>The result of \<^verbatim>\<open>dynamic_cast<const AdjustedCameraModel*>\<close>: the transform, or null.\<close>

fun adjusted_cast :: "CameraModel \<Rightarrow> Matrix option" where
  "adjusted_cast (Unadjusted b) = None"
| "adjusted_cast (Adjusted t b) = Some t"

text \<open>The result of \<^verbatim>\<open>dynamic_cast<DGCameraModel const*>\<close>: the camera, or null.\<close>

fun dg_cast :: "BaseCamera \<Rightarrow> DGCameraModel option" where
  "dg_cast (DG c) = Some c"
| "dg_cast OtherCamera = None"

text \<open>
  The library functions of Covariance.cc: the triangulation of two rays, each given by
  its direction and its origin (the point; the error vector it also returns is not
  used), and the inverse of a 3 by 3 matrix.
\<close>

record vw_api =
  triangulate_pair :: "Vector3 \<Rightarrow> Vector3 \<Rightarrow> Vector3 \<Rightarrow> Vector3 \<Rightarrow> Vector3"
  inverse_mat :: "Matrix \<Rightarrow> Matrix"

definition deltaPosition :: dbl where
  "deltaPosition = Fin (1 / 100)"

definition deltaQuat :: dbl where
  "deltaQuat = Fin (1 / 1000000)"

section \<open>Covariance.cc: scaledTriangulationJacobian\<close>

text \<open>The four lists of lines 140--160: at position 0 the nominal camera, then its
  perturbed copies.\<close>

record rays =
  cam1_dirs :: "Vector3 list"
  cam1_ctrs :: "Vector3 list"
  cam2_dirs :: "Vector3 list"
  cam2_ctrs :: "Vector3 list"

text \<open>Lines 116--119: the rotation and the shift of an adjustment.\<close>

definition adjust_dir :: "Matrix \<Rightarrow> Vector3 \<Rightarrow> Vector3" where
  "adjust_dir cam_adj v = mat3_vec cam_adj v"

definition adjust_ctr :: "Matrix \<Rightarrow> Vector3 \<Rightarrow> Vector3" where
  "adjust_ctr cam_adj v =
     vec3_add (mat3_vec cam_adj v) (cam_adj (0, 3), cam_adj (1, 3), cam_adj (2, 3))"

text \<open>
  Lines 101--160: the checks on the two cameras, then the directions and centers of the
  nominal and of the perturbed cameras, adjusted when the cameras are. The result holds
  the first DigitalGlobe camera too, whose datum is used next.
\<close>

definition camera_rays ::
  "CameraModel \<Rightarrow> CameraModel \<Rightarrow> Vector2 \<Rightarrow> Vector2 \<Rightarrow> exn + (rays \<times> DGCameraModel)" where
  "camera_rays cam1 cam2 pix1 pix2 =
     (if (adjusted_cast cam1 = None) \<noteq> (adjusted_cast cam2 = None) then Inl ArgumentErr
      else
        case (dg_cast (unadjusted_model cam1), dg_cast (unadjusted_model cam2)) of
          (Some dg_cam1, Some dg_cam2) \<Rightarrow>
            if m_perturbed_cams dg_cam1 = [] \<or> m_perturbed_cams dg_cam2 = []
            then Inl ArgumentErr
            else if length (m_perturbed_cams dg_cam1) \<noteq> length (m_perturbed_cams dg_cam2)
            then Inl ArgumentErr
            else
              let dirs1 = pixel_to_vector dg_cam1 pix1
                            # map (\<lambda>c. pixel_to_vector c pix1) (m_perturbed_cams dg_cam1);
                  ctrs1 = camera_center dg_cam1 pix1
                            # map (\<lambda>c. camera_center c pix1) (m_perturbed_cams dg_cam1);
                  dirs2 = pixel_to_vector dg_cam2 pix2
                            # map (\<lambda>c. pixel_to_vector c pix2) (m_perturbed_cams dg_cam2);
                  ctrs2 = camera_center dg_cam2 pix2
                            # map (\<lambda>c. camera_center c pix2) (m_perturbed_cams dg_cam2)
              in (case (adjusted_cast cam1, adjusted_cast cam2) of
                    (Some cam1_adj, Some cam2_adj) \<Rightarrow>
                      Inr (\<lparr>cam1_dirs = map (adjust_dir cam1_adj) dirs1,
                            cam1_ctrs = map (adjust_ctr cam1_adj) ctrs1,
                            cam2_dirs = map (adjust_dir cam2_adj) dirs2,
                            cam2_ctrs = map (adjust_ctr cam2_adj) ctrs2\<rparr>, dg_cam1)
                  | _ \<Rightarrow>
                      Inr (\<lparr>cam1_dirs = dirs1, cam1_ctrs = ctrs1,
                            cam2_dirs = dirs2, cam2_ctrs = ctrs2\<rparr>, dg_cam1))
        | _ \<Rightarrow> Inl ArgumentErr)"

text \<open>Lines 165--167: the nominal triangulation.\<close>

definition nominal_point :: "vw_api \<Rightarrow> rays \<Rightarrow> Vector3" where
  "nominal_point api rs =
     triangulate_pair api (cam1_dirs rs ! 0) (cam1_ctrs rs ! 0) (cam2_dirs rs ! 0) (cam2_ctrs rs ! 0)"

text \<open>Lines 172--175: the matrix from ECEF to North-East-Down at the nominal point.\<close>

definition ecef_to_ned :: "vw_api \<Rightarrow> Datum \<Rightarrow> Vector3 \<Rightarrow> Matrix" where
  "ecef_to_ned api dat tri_nominal =
     (let llh = cartesian_to_geodetic dat tri_nominal;
          NedToEcef = lonlat_to_ned_matrix dat (fst llh, fst (snd llh))
      in inverse_mat api NedToEcef)"

text \<open>Lines 187--222: the two triangulations for the variable \<open>coord\<close>.\<close>

definition tri_plus :: "vw_api \<Rightarrow> rays \<Rightarrow> nat \<Rightarrow> Vector3" where
  "tri_plus api rs coord =
     (if coord < 7
      then triangulate_pair api (cam1_dirs rs ! (2 * coord + 1)) (cam1_ctrs rs ! (2 * coord + 1))
             (cam2_dirs rs ! 0) (cam2_ctrs rs ! 0)
      else let coord2 = coord - 7
           in triangulate_pair api (cam1_dirs rs ! 0) (cam1_ctrs rs ! 0)
                (cam2_dirs rs ! (2 * coord2 + 1)) (cam2_ctrs rs ! (2 * coord2 + 1)))"

definition tri_minus :: "vw_api \<Rightarrow> rays \<Rightarrow> nat \<Rightarrow> Vector3" where
  "tri_minus api rs coord =
     (if coord < 7
      then triangulate_pair api (cam1_dirs rs ! (2 * coord + 2)) (cam1_ctrs rs ! (2 * coord + 2))
             (cam2_dirs rs ! 0) (cam2_ctrs rs ! 0)
      else let coord2 = coord - 7
           in triangulate_pair api (cam1_dirs rs ! 0) (cam1_ctrs rs ! 0)
                (cam2_dirs rs ! (2 * coord2 + 2)) (cam2_ctrs rs ! (2 * coord2 + 2)))"

text \<open>Lines 226--237: the column of the variable \<open>coord\<close>, not divided by the spacing.\<close>

definition ned_diff :: "vw_api \<Rightarrow> Matrix \<Rightarrow> Vector3 \<Rightarrow> rays \<Rightarrow> nat \<Rightarrow> Vector3" where
  "ned_diff api EcefToNed tri_nominal rs coord =
     (let ned_plus = mat3_vec EcefToNed (vec3_sub (tri_plus api rs coord) tri_nominal);
          ned_minus = mat3_vec EcefToNed (vec3_sub (tri_minus api rs coord) tri_nominal)
      in vec3_div (vec3_sub ned_plus ned_minus) (Fin 2))"

text \<open>Lines 239--240, the loop over the rows, and lines 185--241, the loop over the
  variables.\<close>

definition set_column :: "Matrix \<Rightarrow> nat \<Rightarrow> Vector3 \<Rightarrow> Matrix" where
  "set_column J coord v = fold (\<lambda>row J. J((row, coord) := vec3_at v row)) [0..<3] J"

definition fill_jacobian :: "vw_api \<Rightarrow> Matrix \<Rightarrow> Vector3 \<Rightarrow> rays \<Rightarrow> Matrix" where
  "fill_jacobian api EcefToNed tri_nominal rs =
     fold (\<lambda>coord J. set_column J coord (ned_diff api EcefToNed tri_nominal rs coord))
       [0..<14] (\<lambda>rc. 0)"

text \<open>
  \<^verbatim>\<open>scaledTriangulationJacobian\<close>, lines 95--244. The loop reads the four lists up to
  position 14: with fewer than 14 perturbed cameras the reads are out of range, which C++
  leaves undefined, and the model answers \<open>None\<close>.
\<close>

definition scaledTriangulationJacobian ::
  "vw_api \<Rightarrow> CameraModel \<Rightarrow> CameraModel \<Rightarrow> Vector2 \<Rightarrow> Vector2 \<Rightarrow> (exn + Matrix) option" where
  "scaledTriangulationJacobian api cam1 cam2 pix1 pix2 =
     (case camera_rays cam1 cam2 pix1 pix2 of
        Inl e \<Rightarrow> Some (Inl e)
      | Inr (rs, dg_cam1) \<Rightarrow>
          let tri_nominal = nominal_point api rs
          in if vec3_ne tri_nominal tri_nominal then Some (Inl ArgumentErr)
             else
               let EcefToNed = ecef_to_ned api (datum dg_cam1) tri_nominal
               in if length (cam1_dirs rs) < 15 then None
                  else Some (Inr (fill_jacobian api EcefToNed tri_nominal rs)))"


section \<open>Covariance.cc: scaledSatelliteCovariance and propagateCovariance\<close>

text \<open>
  \<^verbatim>\<open>insertBlock\<close>, lines 251--260. The inner loop runs over the columns from \<open>row\<close> on, the
  outer loop over the rows of a block of size \<open>bsize\<close>; \<open>count\<close> walks through \<open>inputVals\<close>, and each value is written
  at an entry and at its mirror image.
\<close>

fun insert_cols :: "nat \<Rightarrow> nat \<Rightarrow> dbl list \<Rightarrow> nat list \<Rightarrow> nat \<times> Matrix \<Rightarrow> nat \<times> Matrix" where
  "insert_cols start row inputVals [] state = state"
| "insert_cols start row inputVals (col # cols) (count, C) =
     insert_cols start row inputVals cols
       (count + 1,
        C((start + row, start + col) := inputVals ! count,
          (start + col, start + row) := inputVals ! count))"

fun insert_rows :: "nat \<Rightarrow> nat \<Rightarrow> dbl list \<Rightarrow> nat list \<Rightarrow> nat \<times> Matrix \<Rightarrow> nat \<times> Matrix" where
  "insert_rows start bsize inputVals [] state = state"
| "insert_rows start bsize inputVals (row # rows) state =
     insert_rows start bsize inputVals rows
       (insert_cols start row inputVals [row..<bsize] state)"

definition insertBlock :: "nat \<Rightarrow> nat \<Rightarrow> dbl list \<Rightarrow> Matrix \<Rightarrow> Matrix" where
  "insertBlock start bsize inputVals C =
     snd (insert_rows start bsize inputVals [0..<bsize] (0, C))"

text \<open>Lines 298--305: the scaling of the interpolated covariances.\<close>

definition scale_pos :: "dbl \<Rightarrow> dbl \<Rightarrow> dbl" where
  "scale_pos pf v = dbl_div (pf * v) (deltaPosition * deltaPosition)"

definition scale_quat :: "dbl \<Rightarrow> dbl \<Rightarrow> dbl" where
  "scale_quat qf v = dbl_div (qf * v) (deltaQuat * deltaQuat)"

text \<open>
  \<^verbatim>\<open>scaledSatelliteCovariance\<close>, lines 263--333. \<open>pf\<close> and \<open>qf\<close> are the settings
  \<^verbatim>\<open>position_covariance_factor\<close> and \<^verbatim>\<open>orientation_covariance_factor\<close>.
\<close>

definition scaledSatelliteCovariance ::
  "dbl \<Rightarrow> dbl \<Rightarrow> CameraModel \<Rightarrow> CameraModel \<Rightarrow> Vector2 \<Rightarrow> Vector2 \<Rightarrow> exn + Matrix" where
  "scaledSatelliteCovariance pf qf cam1 cam2 pix1 pix2 =
     (let C = (\<lambda>rc. 0)
      in case (dg_cast (unadjusted_model cam1), dg_cast (unadjusted_model cam2)) of
           (Some dg_cam1, Some dg_cam2) \<Rightarrow>
             let p_cov1 = map (interpSatellitePosCov dg_cam1 pix1) [0..<SAT_POS_COV_SIZE];
                 q_cov1 = map (interpSatelliteQuatCov dg_cam1 pix1) [0..<SAT_QUAT_COV_SIZE];
                 p_cov2 = map (interpSatellitePosCov dg_cam2 pix2) [0..<SAT_POS_COV_SIZE];
                 q_cov2 = map (interpSatelliteQuatCov dg_cam2 pix2) [0..<SAT_QUAT_COV_SIZE];
                 p_cov1 = map (scale_pos pf) p_cov1;
                 p_cov2 = map (scale_pos pf) p_cov2;
                 q_cov1 = map (scale_quat qf) q_cov1;
                 q_cov2 = map (scale_quat qf) q_cov2;
                 C = insertBlock 0 3 p_cov1 C;
                 C = insertBlock 3 4 q_cov1 C;
                 C = insertBlock 7 3 p_cov2 C;
                 C = insertBlock 10 4 q_cov2 C
             in Inr C
         | _ \<Rightarrow> Inl ArgumentErr)"

text \<open>
  Lines 352--382 of \<^verbatim>\<open>propagateCovariance\<close>: from the Jacobian and the covariance to the
  two numbers, or to the exception of the test \<^verbatim>\<open>ans != ans\<close>.
\<close>

definition propagate :: "Matrix \<Rightarrow> Matrix \<Rightarrow> exn + Vector2" where
  "propagate J C =
     (let JT = transpose_mat J;
          P = mat_mul 14 (mat_mul 14 J C) JT;
          H = P;
          ans = (dbl_sqrt (det2 H), P (2, 2))
      in if vec2_ne ans ans then Inl ArgumentErr else Inr ans)"

text \<open>\<^verbatim>\<open>propagateCovariance\<close>, lines 336--383.\<close>

definition propagateCovariance ::
  "vw_api \<Rightarrow> dbl \<Rightarrow> dbl \<Rightarrow> CameraModel \<Rightarrow> CameraModel \<Rightarrow> Vector2 \<Rightarrow> Vector2
     \<Rightarrow> (exn + Vector2) option" where
  "propagateCovariance api pf qf cam1 cam2 pix1 pix2 =
     (case scaledTriangulationJacobian api cam1 cam2 pix1 pix2 of
        None \<Rightarrow> None
      | Some (Inl e) \<Rightarrow> Some (Inl e)
      | Some (Inr J) \<Rightarrow>
          (case scaledSatelliteCovariance pf qf cam1 cam2 pix1 pix2 of
             Inl e \<Rightarrow> Some (Inl e)
           | Inr C \<Rightarrow> Some (propagate J C)))"

text \<open>
  For stating where the blocks lie: the block of an index below 14, and the position in
  \<open>inputVals\<close> of the entry \<open>(row, col)\<close>, \<open>row \<le> col\<close>, of the upper triangle of a block of
  the given size.
\<close>

definition block_of :: "nat \<Rightarrow> nat" where
  "block_of i = (if i < 3 then 0 else if i < 7 then 1 else if i < 10 then 2 else 3)"

definition upper_index :: "nat \<Rightarrow> nat \<Rightarrow> nat \<Rightarrow> nat" where
  "upper_index bsize row col = row * bsize - (row * (row - 1)) div 2 + (col - row)"

text \<open>
  Examples. A triangulation that fails, with NaN, on parallel rays, and adds up the
  centers and the directions otherwise; a datum with the identity as its rotation.
\<close>

definition identity3 :: Matrix where
  "identity3 = (\<lambda>(r, c). if r = c then Fin 1 else Fin 0)"

definition example_vw :: vw_api where
  "example_vw =
     \<lparr>triangulate_pair = (\<lambda>d1 c1 d2 c2.
         if d1 = d2 then (NaN, NaN, NaN) else vec3_add (vec3_add c1 d1) (vec3_add c2 d2)),
      inverse_mat = (\<lambda>M. M)\<rparr>"

definition example_datum :: Datum where
  "example_datum =
     \<lparr>cartesian_to_geodetic = (\<lambda>v. v), lonlat_to_ned_matrix = (\<lambda>lonlat. identity3)\<rparr>"


text \<open>
  Perturbed copies of a camera looking along \<open>dir\<close> from the origin: copy \<open>k\<close> has its
  center moved by \<open>shift k\<close> and looks along \<open>turn k\<close>.
\<close>

definition example_dg ::
  "Vector3 \<Rightarrow> (nat \<Rightarrow> Vector3) \<Rightarrow> (nat \<Rightarrow> Vector3) \<Rightarrow> dbl \<Rightarrow> DGCameraModel" where
  "example_dg dir shift turn cov =
     \<lparr>pixel_to_vector = (\<lambda>pix. dir), camera_center = (\<lambda>pix. (Fin 0, Fin 0, Fin 0)),
      m_perturbed_cams =
        map (\<lambda>k. \<lparr>pixel_to_vector = (\<lambda>pix. turn k), camera_center = (\<lambda>pix. shift k)\<rparr>)
          [0..<14],
      interpSatellitePosCov = (\<lambda>pix ip. cov),
      interpSatelliteQuatCov = (\<lambda>pix iq. cov),
      datum = example_datum\<rparr>"

text \<open>
  The first camera looks along the first axis; its copies 0 and 1 have the center moved by
  plus and minus one hundredth along the first axis, the others are the camera itself.
  The second camera looks along the second axis and all its copies are the camera
  itself. The third camera is the first with copy 0 looking along the second axis, so
  that its ray is parallel to that of the second camera.
\<close>

definition example_cam1 :: "dbl \<Rightarrow> DGCameraModel" where
  "example_cam1 cov =
     example_dg (Fin 1, Fin 0, Fin 0)
       (\<lambda>k. if k = 0 then (Fin (1 / 100), Fin 0, Fin 0)
             else if k = 1 then (Fin (- 1 / 100), Fin 0, Fin 0) else (Fin 0, Fin 0, Fin 0))
       (\<lambda>k. (Fin 1, Fin 0, Fin 0)) cov"

definition example_cam2 :: "dbl \<Rightarrow> DGCameraModel" where
  "example_cam2 cov =
     example_dg (Fin 0, Fin 1, Fin 0) (\<lambda>k. (Fin 0, Fin 0, Fin 0)) (\<lambda>k. (Fin 0, Fin 1, Fin 0)) cov"

definition example_cam3 :: "dbl \<Rightarrow> DGCameraModel" where
  "example_cam3 cov =
     example_dg (Fin 1, Fin 0, Fin 0) (\<lambda>k. (Fin 0, Fin 0, Fin 0))
       (\<lambda>k. if k = 0 then (Fin 0, Fin 1, Fin 0) else (Fin 1, Fin 0, Fin 0)) cov"

text \<open>The pixel of the examples, and the rays of a camera given like those of
  \<open>example_dg\<close> together with the second example camera.\<close>

definition example_pix :: Vector2 where
  "example_pix = (Fin 0, Fin 0)"

definition example_rays :: "Vector3 \<Rightarrow> (nat \<Rightarrow> Vector3) \<Rightarrow> (nat \<Rightarrow> Vector3) \<Rightarrow> rays" where
  "example_rays dir shift turn =
     \<lparr>cam1_dirs = dir # map turn [0..<14],
      cam1_ctrs = (Fin 0, Fin 0, Fin 0) # map shift [0..<14],
      cam2_dirs = (Fin 0, Fin 1, Fin 0) # map (\<lambda>k. (Fin 0, Fin 1, Fin 0)) [0..<14],
      cam2_ctrs = (Fin 0, Fin 0, Fin 0) # map (\<lambda>k. (Fin 0, Fin 0, Fin 0)) [0..<14]\<rparr>"

section \<open>Properties of the observation window\<close>

lemma trunc_range:
  fixes x :: real
  assumes "- 2147483645 < x" "x < 2147483643"
  shows "static_cast_int (Fin x) = Some (if 0 \<le> x then \<lfloor>x\<rfloor> else \<lceil>x\<rceil>)"
    and "- 2147483644 \<le> (if 0 \<le> x then \<lfloor>x\<rfloor> else \<lceil>x\<rceil>)"
    and "(if 0 \<le> x then \<lfloor>x\<rfloor> else \<lceil>x\<rceil>) \<le> 2147483642"
proof -
  let ?t = "if 0 \<le> x then \<lfloor>x\<rfloor> else \<lceil>x\<rceil>"
  show lo: "- 2147483644 \<le> ?t"
  proof (cases "0 \<le> x")
    case True then show ?thesis by simp
  next
    case False
    from assms(1) have "- 2147483645 < \<lceil>x\<rceil>" by (simp add: less_ceiling_iff)
    with False show ?thesis by simp
  qed
  show hi: "?t \<le> 2147483642"
  proof (cases "0 \<le> x")
    case True
    from assms(2) have "\<lfloor>x\<rfloor> < 2147483643" by (simp add: floor_less_iff)
    with True show ?thesis by simp
  next
    case False
    then have "\<lceil>x\<rceil> \<le> 0" by (simp add: ceiling_le_iff)
    with False show ?thesis by simp
  qed
  have "(if 0 \<le> x then \<lfloor>x\<rfloor> else - \<lfloor>- x\<rfloor>) = ?t" by (simp add: ceiling_def)
  with lo hi show "static_cast_int (Fin x) = Some ?t"
    by (simp add: static_cast_int_def INT_MIN_def INT_MAX_def Let_def)
qed

lemma static_cast_int_Fin:
  "static_cast_int (Fin x) =
     (if - 2147483649 < x \<and> x < 2147483648 then Some (if 0 \<le> x then \<lfloor>x\<rfloor> else \<lceil>x\<rceil>) else None)"
proof -
  have a: "- 2147483648 \<le> \<lfloor>x\<rfloor>" if "0 \<le> x" using that by (simp add: le_floor_iff)
  have b: "\<lceil>x\<rceil> \<le> 2147483647" if "\<not> 0 \<le> x" using that by (simp add: ceiling_le_iff)
  have c: "\<lfloor>x\<rfloor> \<le> 2147483647 \<longleftrightarrow> x < 2147483648"
    using floor_less_iff [of x 2147483648] by simp
  have d: "- 2147483648 \<le> \<lceil>x\<rceil> \<longleftrightarrow> - 2147483649 < x"
    using less_ceiling_iff [of "- 2147483649" x] by simp
  show ?thesis
  proof (cases "0 \<le> x")
    case True
    with a c show ?thesis
      by (simp add: static_cast_int_def INT_MIN_def INT_MAX_def Let_def)
  next
    case False
    with b d show ?thesis
      by (simp add: static_cast_int_def INT_MIN_def INT_MAX_def Let_def ceiling_def)
  qed
qed

lemma index_window_in_range:
  fixes q1 q2 :: real
  assumes q1: "double_div rnd (double_sub rnd time1 t0) dt = Fin q1"
    and q2: "double_div rnd (double_sub rnd time2 t0) dt = Fin q2"
    and r1: "- 2147483645 < q1" "q1 < 2147483643"
    and r2: "- 2147483645 < q2" "q2 < 2147483643"
  shows "index_window rnd 8 num t0 dt time1 time2 =
           Some (max 0 (min (if 0 \<le> q1 then \<lfloor>q1\<rfloor> else \<lceil>q1\<rceil>) (if 0 \<le> q2 then \<lfloor>q2\<rfloor> else \<lceil>q2\<rceil>) - 3),
                 min (max (if 0 \<le> q1 then \<lfloor>q1\<rfloor> else \<lceil>q1\<rceil>) (if 0 \<le> q2 then \<lfloor>q2\<rfloor> else \<lceil>q2\<rceil>) + 5) num)"
proof -
  define i1 where "i1 = (if 0 \<le> q1 then \<lfloor>q1\<rfloor> else \<lceil>q1\<rceil>)"
  define i2 where "i2 = (if 0 \<le> q2 then \<lfloor>q2\<rfloor> else \<lceil>q2\<rceil>)"
  note t1 = trunc_range [OF r1, folded i1_def] and t2 = trunc_range [OF r2, folded i2_def]
  define m where "m = min i1 i2"
  define M where "M = max i1 i2"
  from t1(2,3) t2(2,3) have b: "- 2147483644 \<le> m" "m \<le> 2147483642"
    "- 2147483644 \<le> M" "M \<le> 2147483642"
    unfolding m_def M_def by linarith+
  have s1: "int_sub m 4 = Some (m - 4)"
    unfolding int_sub_def INT_MIN_def INT_MAX_def using b(1,2) by (intro if_P) linarith
  have s2: "int_add (m - 4) 1 = Some (m - 3)"
  proof -
    have "int_add (m - 4) 1 = Some (m - 4 + 1)"
      unfolding int_add_def INT_MIN_def INT_MAX_def using b(1,2) by (intro if_P) linarith
    then show ?thesis by simp
  qed
  have s3: "int_add M 4 = Some (M + 4)"
    unfolding int_add_def INT_MIN_def INT_MAX_def using b(3,4) by (intro if_P) linarith
  have s4: "int_add (M + 4) 1 = Some (M + 5)"
  proof -
    have "int_add (M + 4) 1 = Some (M + 4 + 1)"
      unfolding int_add_def INT_MIN_def INT_MAX_def using b(3,4) by (intro if_P) linarith
    then show ?thesis by simp
  qed
  have "index_window rnd 8 num t0 dt time1 time2 =
          Some (max 0 (m - 3), min (M + 5) num)"
    unfolding index_window_def q1 q2 t1(1) t2(1)
    by (simp add: s1 [unfolded m_def] s2 [unfolded m_def] s3 [unfolded M_def]
        s4 [unfolded M_def] m_def M_def)
  then have "index_window rnd 8 num t0 dt time1 time2 =
          Some (max 0 (min i1 i2 - 3), min (max i1 i2 + 5) num)"
    unfolding m_def M_def .
  then show ?thesis unfolding i1_def i2_def .
qed


lemma int_of_size_small: "int n \<le> 2147483647 \<Longrightarrow> int_of_size n = int n"
  by (simp add: int_of_size_def INT_MAX_def Let_def)

lemma index_window_undefined:
  "static_cast_int (double_div rnd (double_sub rnd time1 t0) dt) = None
     \<or> static_cast_int (double_div rnd (double_sub rnd time2 t0) dt) = None
   \<Longrightarrow> index_window rnd numPerObs num t0 dt time1 time2 = None"
  by (auto simp add: index_window_def split: option.split)

lemma quotient_nonpos:
  fixes q :: real
  assumes rnd: "\<forall>x y. x \<le> 0 \<longrightarrow> rnd x = Fin y \<longrightarrow> y \<le> 0"
    and q: "double_div rnd (double_sub rnd (Fin t) (Fin t0)) (Fin dt) = Fin q"
    and le: "t \<le> t0" "0 < dt"
  shows "q \<le> 0"
proof (cases "rnd (t - t0)")
  case NaN
  with q show ?thesis by (simp add: double_div_def double_sub_def)
next
  case (Fin a)
  with rnd le have a: "a \<le> 0" by (metis diff_le_0_iff_le)
  from q Fin le have "rnd (a / dt) = Fin q" by (simp add: double_div_def double_sub_def)
  moreover from a le have "a / dt \<le> 0" by (simp add: divide_le_0_iff)
  ultimately show ?thesis using rnd by blast
qed

lemma beg_zero:
  fixes q1 q2 :: real
  assumes "q1 \<le> 0 \<or> q2 \<le> 0"
  shows "max 0 (min (if 0 \<le> q1 then \<lfloor>q1\<rfloor> else \<lceil>q1\<rceil>) (if 0 \<le> q2 then \<lfloor>q2\<rfloor> else \<lceil>q2\<rceil>) - 3) = 0"
proof -
  have "(if 0 \<le> x then \<lfloor>x\<rfloor> else \<lceil>x\<rceil>) \<le> 0" if "x \<le> 0" for x :: real
    using that by (cases "x = 0") (simp_all add: ceiling_le_iff)
  with assms have "min (if 0 \<le> q1 then \<lfloor>q1\<rfloor> else \<lceil>q1\<rceil>) (if 0 \<le> q2 then \<lfloor>q2\<rfloor> else \<lceil>q2\<rceil>) \<le> 0"
    by (metis min.coboundedI1 min.coboundedI2)
  then show ?thesis by linarith
qed

text \<open>
  C1, as the code has it. The two imaging times are those of the observation's line minus
  and plus \<open>line_extra\<close>, the maximal initial reprojection error plus 5. For the
  quaternions and for the positions, each with its own \<open>t0\<close>, \<open>dt\<close> and count, the double
  quotient \<open>(time - t0)/dt\<close> is converted by \<^verbatim>\<open>static_cast<int>\<close>: truncation toward zero,
  the floor of a quotient that is not negative and the ceiling of a negative one, defined
  for a finite quotient whose truncation is an \<^verbatim>\<open>int\<close> and for no other (the run has no
  defined behaviour when the conversion of a quaternion quotient has none). When the four
  quotients are finite and far enough from the ends of the range of \<^verbatim>\<open>int\<close> for
  \<open>min - 3\<close> and \<open>max + 5\<close> to be computed, and the counts are values of \<^verbatim>\<open>int\<close>, the
  window is \<open>[min - 3, max + 5)\<close> around the two raw indices, cut to \<open>[0, count)\<close>; the
  pair of windows is returned when both are not empty, and then \<open>0 \<le> beg < end \<le> count\<close>;
  the book-keeping error is raised exactly when one of the two is empty; and a time at or
  before \<open>t0\<close>, with a positive step, gives \<open>beg = 0\<close>, the rounding of the machine never
  turning a value that is not positive into a positive one.
\<close>

theorem resolve_window_truncates_and_clamps:
  assumes line_extra: "line_extra = double_add rnd mx (Fin 5)"
    and time1: "time1 = getImageTime api cam (toCsmPixel api
                  (double_sub rnd (fst obs) (Fin 0), double_sub rnd (snd obs) line_extra))"
    and time2: "time2 = getImageTime api cam (toCsmPixel api
                  (double_add rnd (fst obs) (Fin 0), double_add rnd (snd obs) line_extra))"
    and Q1: "Q1 = double_div rnd (double_sub rnd time1 (m_t0Quat cam)) (m_dtQuat cam)"
    and Q2: "Q2 = double_div rnd (double_sub rnd time2 (m_t0Quat cam)) (m_dtQuat cam)"
    and P1: "P1 = double_div rnd (double_sub rnd time1 (m_t0Ephem cam)) (m_dtEphem cam)"
    and P2: "P2 = double_div rnd (double_sub rnd time2 (m_t0Ephem cam)) (m_dtEphem cam)"
    and numQuat: "numQuat = int (length (m_quaternions cam) div 4)"
    and numPos: "numPos = int (length (m_positions cam) div 3)"
  shows
    "static_cast_int NaN = None
     \<and> (\<forall>x. static_cast_int (Fin x) =
            (if - 2147483649 < x \<and> x < 2147483648
             then Some (if 0 \<le> x then \<lfloor>x\<rfloor> else \<lceil>x\<rceil>) else None))
     \<and> (static_cast_int Q1 = None \<or> static_cast_int Q2 = None \<longrightarrow>
          resolve_window rnd api mx cam obs = None)
     \<and> (\<forall>q1 q2 p1 p2.
          Q1 = Fin q1 \<and> Q2 = Fin q2 \<and> P1 = Fin p1 \<and> P2 = Fin p2
          \<and> (\<forall>x\<in>{q1, q2, p1, p2}. - 2147483645 < x \<and> x < 2147483643)
          \<and> numQuat \<le> 2147483647 \<and> numPos \<le> 2147483647 \<longrightarrow>
          (let index = (\<lambda>x::real. if 0 \<le> x then \<lfloor>x\<rfloor> else \<lceil>x\<rceil>);
               begQ = max 0 (min (index q1) (index q2) - 3);
               endQ = min (max (index q1) (index q2) + 5) numQuat;
               begP = max 0 (min (index p1) (index p2) - 3);
               endP = min (max (index p1) (index p2) + 5) numPos
           in resolve_window rnd api mx cam obs =
                Some (if begQ < endQ \<and> begP < endP
                      then Inr \<lparr>begQuatIndex = begQ, endQuatIndex = endQ,
                                begPosIndex = begP, endPosIndex = endP\<rparr>
                      else Inl ArgumentErr)
              \<and> (begQ < endQ \<longrightarrow> 0 \<le> begQ \<and> endQ \<le> numQuat)
              \<and> (begP < endP \<longrightarrow> 0 \<le> begP \<and> endP \<le> numPos)
              \<and> ((\<forall>x y. x \<le> 0 \<longrightarrow> rnd x = Fin y \<longrightarrow> y \<le> 0)
                   \<and> (\<exists>t t0 dt. (time1 = Fin t \<or> time2 = Fin t) \<and> m_t0Quat cam = Fin t0
                          \<and> m_dtQuat cam = Fin dt \<and> t \<le> t0 \<and> 0 < dt) \<longrightarrow> begQ = 0)
              \<and> ((\<forall>x y. x \<le> 0 \<longrightarrow> rnd x = Fin y \<longrightarrow> y \<le> 0)
                   \<and> (\<exists>t t0 dt. (time1 = Fin t \<or> time2 = Fin t) \<and> m_t0Ephem cam = Fin t0
                          \<and> m_dtEphem cam = Fin dt \<and> t \<le> t0 \<and> 0 < dt) \<longrightarrow> begP = 0)))"
proof (intro conjI allI impI)
  show "static_cast_int NaN = None" by (simp add: static_cast_int_def)
next
  fix x show "static_cast_int (Fin x) =
            (if - 2147483649 < x \<and> x < 2147483648
             then Some (if 0 \<le> x then \<lfloor>x\<rfloor> else \<lceil>x\<rceil>) else None)"
    by (rule static_cast_int_Fin)
next
  assume "static_cast_int Q1 = None \<or> static_cast_int Q2 = None"
  then have "quat_window rnd cam (time1, time2) = None"
    unfolding Q1 Q2 quat_window_def Let_def fst_conv snd_conv by (rule index_window_undefined)
  then show "resolve_window rnd api mx cam obs = None"
    by (simp add: resolve_window_def observation_times_def Let_def time1 time2 line_extra)
next
  fix q1 q2 p1 p2 :: real
  assume h: "Q1 = Fin q1 \<and> Q2 = Fin q2 \<and> P1 = Fin p1 \<and> P2 = Fin p2
          \<and> (\<forall>x\<in>{q1, q2, p1, p2}. - 2147483645 < x \<and> x < 2147483643)
          \<and> numQuat \<le> 2147483647 \<and> numPos \<le> 2147483647"
  define index where "index = (\<lambda>x::real. if 0 \<le> x then \<lfloor>x\<rfloor> else \<lceil>x\<rceil>)"
  define begQ where "begQ = max 0 (min (index q1) (index q2) - 3)"
  define endQ where "endQ = min (max (index q1) (index q2) + 5) numQuat"
  define begP where "begP = max 0 (min (index p1) (index p2) - 3)"
  define endP where "endP = min (max (index p1) (index p2) + 5) numPos"
  from h have r: "- 2147483645 < q1" "q1 < 2147483643" "- 2147483645 < q2" "q2 < 2147483643"
    "- 2147483645 < p1" "p1 < 2147483643" "- 2147483645 < p2" "p2 < 2147483643" by simp_all
  from h numQuat numPos have n: "int_of_size (length (m_quaternions cam) div 4) = numQuat"
    "int_of_size (length (m_positions cam) div 3) = numPos"
    by (simp_all add: int_of_size_small)
  from h Q1 Q2 have qw: "quat_window rnd cam (time1, time2) = Some (begQ, endQ)"
    unfolding quat_window_def Let_def fst_conv snd_conv NUM_QUAT_PARAMS_def n begQ_def endQ_def
      index_def
    by (intro index_window_in_range r) simp_all
  from h P1 P2 have pw: "pos_window rnd cam (time1, time2) = Some (begP, endP)"
    unfolding pos_window_def Let_def fst_conv snd_conv NUM_XYZ_PARAMS_def n begP_def endP_def
      index_def
    by (intro index_window_in_range r) simp_all
  have res: "resolve_window rnd api mx cam obs =
                Some (if begQ < endQ \<and> begP < endP
                      then Inr \<lparr>begQuatIndex = begQ, endQuatIndex = endQ,
                                begPosIndex = begP, endPosIndex = endP\<rparr>
                      else Inl ArgumentErr)"
    using qw pw
    by (simp add: resolve_window_def observation_times_def Let_def time1 [symmetric]
        time2 [symmetric] line_extra [symmetric] not_le)
  have bq: "0 \<le> begQ \<and> endQ \<le> numQuat" by (simp add: begQ_def endQ_def)
  have bp: "0 \<le> begP \<and> endP \<le> numPos" by (simp add: begP_def endP_def)
  have zq: "begQ = 0"
    if "(\<forall>x y. x \<le> 0 \<longrightarrow> rnd x = Fin y \<longrightarrow> y \<le> 0)
        \<and> (\<exists>t t0 dt. (time1 = Fin t \<or> time2 = Fin t) \<and> m_t0Quat cam = Fin t0
              \<and> m_dtQuat cam = Fin dt \<and> t \<le> t0 \<and> 0 < dt)"
  proof -
    from that obtain t t0 dt where rnd: "\<forall>x y. x \<le> 0 \<longrightarrow> rnd x = Fin y \<longrightarrow> y \<le> 0"
      and t: "time1 = Fin t \<or> time2 = Fin t" and c: "m_t0Quat cam = Fin t0" "m_dtQuat cam = Fin dt"
      and le: "t \<le> t0" "0 < dt" by blast
    from t h Q1 Q2 c have "double_div rnd (double_sub rnd (Fin t) (Fin t0)) (Fin dt) = Fin q1
        \<or> double_div rnd (double_sub rnd (Fin t) (Fin t0)) (Fin dt) = Fin q2" by auto
    with quotient_nonpos [OF rnd _ le] have "q1 \<le> 0 \<or> q2 \<le> 0" by blast
    then show ?thesis unfolding begQ_def index_def by (rule beg_zero)
  qed
  have zp: "begP = 0"
    if "(\<forall>x y. x \<le> 0 \<longrightarrow> rnd x = Fin y \<longrightarrow> y \<le> 0)
        \<and> (\<exists>t t0 dt. (time1 = Fin t \<or> time2 = Fin t) \<and> m_t0Ephem cam = Fin t0
              \<and> m_dtEphem cam = Fin dt \<and> t \<le> t0 \<and> 0 < dt)"
  proof -
    from that obtain t t0 dt where rnd: "\<forall>x y. x \<le> 0 \<longrightarrow> rnd x = Fin y \<longrightarrow> y \<le> 0"
      and t: "time1 = Fin t \<or> time2 = Fin t" and c: "m_t0Ephem cam = Fin t0" "m_dtEphem cam = Fin dt"
      and le: "t \<le> t0" "0 < dt" by blast
    from t h P1 P2 c have "double_div rnd (double_sub rnd (Fin t) (Fin t0)) (Fin dt) = Fin p1
        \<or> double_div rnd (double_sub rnd (Fin t) (Fin t0)) (Fin dt) = Fin p2" by auto
    with quotient_nonpos [OF rnd _ le] have "p1 \<le> 0 \<or> p2 \<le> 0" by blast
    then show ?thesis unfolding begP_def index_def by (rule beg_zero)
  qed
  show "let index = (\<lambda>x::real. if 0 \<le> x then \<lfloor>x\<rfloor> else \<lceil>x\<rceil>);
               begQ = max 0 (min (index q1) (index q2) - 3);
               endQ = min (max (index q1) (index q2) + 5) numQuat;
               begP = max 0 (min (index p1) (index p2) - 3);
               endP = min (max (index p1) (index p2) + 5) numPos
           in resolve_window rnd api mx cam obs =
                Some (if begQ < endQ \<and> begP < endP
                      then Inr \<lparr>begQuatIndex = begQ, endQuatIndex = endQ,
                                begPosIndex = begP, endPosIndex = endP\<rparr>
                      else Inl ArgumentErr)
              \<and> (begQ < endQ \<longrightarrow> 0 \<le> begQ \<and> endQ \<le> numQuat)
              \<and> (begP < endP \<longrightarrow> 0 \<le> begP \<and> endP \<le> numPos)
              \<and> ((\<forall>x y. x \<le> 0 \<longrightarrow> rnd x = Fin y \<longrightarrow> y \<le> 0)
                   \<and> (\<exists>t t0 dt. (time1 = Fin t \<or> time2 = Fin t) \<and> m_t0Quat cam = Fin t0
                          \<and> m_dtQuat cam = Fin dt \<and> t \<le> t0 \<and> 0 < dt) \<longrightarrow> begQ = 0)
              \<and> ((\<forall>x y. x \<le> 0 \<longrightarrow> rnd x = Fin y \<longrightarrow> y \<le> 0)
                   \<and> (\<exists>t t0 dt. (time1 = Fin t \<or> time2 = Fin t) \<and> m_t0Ephem cam = Fin t0
                          \<and> m_dtEphem cam = Fin dt \<and> t \<le> t0 \<and> 0 < dt) \<longrightarrow> begP = 0)"
    unfolding Let_def index_def [symmetric] begQ_def [symmetric] endQ_def [symmetric]
      begP_def [symmetric] endP_def [symmetric]
    using res bq bp zq zp by blast
qed


lemma example_index:
  "\<lceil>- 19 / 16 :: real\<rceil> = - 1" "\<lfloor>21 / 16 :: real\<rfloor> = 1"
  "\<lceil>- 51 / 16 :: real\<rceil> = - 3" "\<lceil>- 11 / 16 :: real\<rceil> = 0"
  "\<lfloor>- 51 / 16 :: real\<rfloor> = - 4" "\<lfloor>- 11 / 16 :: real\<rfloor> = - 1"
  by (rule ceiling_unique floor_unique; simp)+

lemma example_times:
  "observation_times exact_rnd example_api (Fin 5) (example_cam t0) (Fin 10, Fin 0)
     = (Fin (- 19 / 16), Fin (21 / 16))"
  by (simp add: observation_times_def example_api_def Let_def double_add_def double_sub_def
      exact_rnd_def)

lemma example_quotients:
  "double_div exact_rnd (double_sub exact_rnd (Fin a) (Fin b)) (Fin 1) = Fin (a - b)"
  by (simp add: double_div_def double_sub_def exact_rnd_def)

lemma example_resolve_window:
  "resolve_window exact_rnd example_api (Fin 5) (example_cam 0) (Fin 10, Fin 0) =
     Some (Inr \<lparr>begQuatIndex = 0, endQuatIndex = 6, begPosIndex = 0, endPosIndex = 6\<rparr>)"
  unfolding resolve_window_def example_times
  by (simp add: quat_window_def pos_window_def example_cam_def index_window_def
      example_quotients static_cast_int_Fin example_index int_add_def int_sub_def
      int_of_size_def INT_MIN_def INT_MAX_def NUM_QUAT_PARAMS_def NUM_XYZ_PARAMS_def)

theorem resolve_window_truncates_and_clamps_witness:
  "getImageTime example_api (example_cam 0) (toCsmPixel example_api
       (double_sub exact_rnd (Fin 10) (Fin 0),
        double_sub exact_rnd (Fin 0) (double_add exact_rnd (Fin 5) (Fin 5)))) = Fin (- 19 / 16)
   \<and> getImageTime example_api (example_cam 0) (toCsmPixel example_api
       (double_add exact_rnd (Fin 10) (Fin 0),
        double_add exact_rnd (Fin 0) (double_add exact_rnd (Fin 5) (Fin 5)))) = Fin (21 / 16)
   \<and> double_div exact_rnd (double_sub exact_rnd (Fin (- 19 / 16)) (Fin 0)) (Fin 1)
       = Fin (- 19 / 16)
   \<and> double_div exact_rnd (double_sub exact_rnd (Fin (21 / 16)) (Fin 0)) (Fin 1)
       = Fin (21 / 16)
   \<and> static_cast_int (Fin (- 19 / 16)) = Some (- 1)
   \<and> static_cast_int (Fin (21 / 16)) = Some 1
   \<and> - 2147483645 < (- 19 / 16 :: real) \<and> (21 / 16 :: real) < 2147483643
   \<and> int (length (m_quaternions (example_cam 0)) div 4) = 20
   \<and> int (length (m_positions (example_cam 0)) div 3) = 20
   \<and> resolve_window exact_rnd example_api (Fin 5) (example_cam 0) (Fin 10, Fin 0) =
       Some (Inr \<lparr>begQuatIndex = max 0 (min (- 1) 1 - 3), endQuatIndex = min (max (- 1) 1 + 5) 20,
                  begPosIndex = max 0 (min (- 1) 1 - 3), endPosIndex = min (max (- 1) 1 + 5) 20\<rparr>)
   \<and> resolve_window exact_rnd example_api (Fin 5) (example_cam 0) (Fin 10, Fin 0) =
       Some (Inr \<lparr>begQuatIndex = 0, endQuatIndex = 6, begPosIndex = 0, endPosIndex = 6\<rparr>)
   \<and> (- 19 / 16 :: real) \<le> 0 \<and> (0 :: real) < 1
   \<and> max 0 (min \<lceil>- 19 / 16 :: real\<rceil> \<lfloor>21 / 16 :: real\<rfloor> - 3) = 0
   \<and> static_cast_int
        (double_div exact_rnd
           (double_sub exact_rnd
              (getImageTime example_api (example_cam 0) (toCsmPixel example_api
                 (double_sub exact_rnd (Fin 10) (Fin 0),
                  double_sub exact_rnd (Fin 0)
                    (double_add exact_rnd (Fin 34359738368) (Fin 5)))))
              (Fin 0)) (Fin 1)) = None
   \<and> resolve_window exact_rnd example_api (Fin 34359738368) (example_cam 0) (Fin 10, Fin 0)
       = None"
proof -
  let ?cam = "example_cam 0"
  have t: "getImageTime example_api ?cam (toCsmPixel example_api
       (double_sub exact_rnd (Fin 10) (Fin 0),
        double_sub exact_rnd (Fin 0) (double_add exact_rnd (Fin 5) (Fin 5)))) = Fin (- 19 / 16)"
    "getImageTime example_api ?cam (toCsmPixel example_api
       (double_add exact_rnd (Fin 10) (Fin 0),
        double_add exact_rnd (Fin 0) (double_add exact_rnd (Fin 5) (Fin 5)))) = Fin (21 / 16)"
    by (simp_all add: example_api_def double_add_def double_sub_def exact_rnd_def)
  have c: "m_t0Quat ?cam = Fin 0" "m_dtQuat ?cam = Fin 1" "m_t0Ephem ?cam = Fin 0"
    "m_dtEphem ?cam = Fin 1" "int (length (m_quaternions ?cam) div 4) = 20"
    "int (length (m_positions ?cam) div 3) = 20"
    by (simp_all add: example_cam_def)
  have q: "double_div exact_rnd (double_sub exact_rnd (Fin (- 19 / 16)) (Fin 0)) (Fin 1)
       = Fin (- 19 / 16)"
    "double_div exact_rnd (double_sub exact_rnd (Fin (21 / 16)) (Fin 0)) (Fin 1) = Fin (21 / 16)"
    by (simp_all add: example_quotients)
  note inst = resolve_window_truncates_and_clamps
               [of _ exact_rnd "Fin 5" _ example_api ?cam "(Fin 10, Fin 0)",
                OF refl refl refl refl refl refl refl refl refl]
  from inst [THEN conjunct2, THEN conjunct1, rule_format, of "- 19 / 16"]
  have s1: "static_cast_int (Fin (- 19 / 16)) = Some (- 1)" by (simp add: example_index)
  from inst [THEN conjunct2, THEN conjunct1, rule_format, of "21 / 16"]
  have s2: "static_cast_int (Fin (21 / 16)) = Some 1" by (simp add: example_index)
  note body = inst [THEN conjunct2, THEN conjunct2, THEN conjunct2, rule_format,
                    of "- 19 / 16" "21 / 16" "- 19 / 16" "21 / 16", unfolded Let_def]
  have prem: "double_div exact_rnd (double_sub exact_rnd (getImageTime example_api ?cam
        (toCsmPixel example_api
          (double_sub exact_rnd (fst (Fin 10, Fin 0)) (Fin 0),
           double_sub exact_rnd (snd (Fin 10, Fin 0)) (double_add exact_rnd (Fin 5) (Fin 5)))))
        (m_t0Quat ?cam)) (m_dtQuat ?cam) = Fin (- 19 / 16)
     \<and> double_div exact_rnd (double_sub exact_rnd (getImageTime example_api ?cam
        (toCsmPixel example_api
          (double_add exact_rnd (fst (Fin 10, Fin 0)) (Fin 0),
           double_add exact_rnd (snd (Fin 10, Fin 0)) (double_add exact_rnd (Fin 5) (Fin 5)))))
        (m_t0Quat ?cam)) (m_dtQuat ?cam) = Fin (21 / 16)
     \<and> double_div exact_rnd (double_sub exact_rnd (getImageTime example_api ?cam
        (toCsmPixel example_api
          (double_sub exact_rnd (fst (Fin 10, Fin 0)) (Fin 0),
           double_sub exact_rnd (snd (Fin 10, Fin 0)) (double_add exact_rnd (Fin 5) (Fin 5)))))
        (m_t0Ephem ?cam)) (m_dtEphem ?cam) = Fin (- 19 / 16)
     \<and> double_div exact_rnd (double_sub exact_rnd (getImageTime example_api ?cam
        (toCsmPixel example_api
          (double_add exact_rnd (fst (Fin 10, Fin 0)) (Fin 0),
           double_add exact_rnd (snd (Fin 10, Fin 0)) (double_add exact_rnd (Fin 5) (Fin 5)))))
        (m_t0Ephem ?cam)) (m_dtEphem ?cam) = Fin (21 / 16)
     \<and> (\<forall>x\<in>{- 19 / 16, 21 / 16, - 19 / 16, 21 / 16 :: real}.
            - 2147483645 < x \<and> x < 2147483643)
     \<and> int (length (m_quaternions ?cam) div 4) \<le> 2147483647
     \<and> int (length (m_positions ?cam) div 3) \<le> 2147483647"
    unfolding fst_conv snd_conv t c q by simp
  note win = body [OF prem]
  from win [THEN conjunct1]
  have r: "resolve_window exact_rnd example_api (Fin 5) ?cam (Fin 10, Fin 0) =
       Some (Inr \<lparr>begQuatIndex = max 0 (min (- 1) 1 - 3), endQuatIndex = min (max (- 1) 1 + 5) 20,
                  begPosIndex = max 0 (min (- 1) 1 - 3), endPosIndex = min (max (- 1) 1 + 5) 20\<rparr>)"
    unfolding c by (simp add: example_index)
  then have r': "resolve_window exact_rnd example_api (Fin 5) ?cam (Fin 10, Fin 0) =
       Some (Inr \<lparr>begQuatIndex = 0, endQuatIndex = 6, begPosIndex = 0, endPosIndex = 6\<rparr>)"
    by simp
  have sign: "\<forall>x y. x \<le> 0 \<longrightarrow> exact_rnd x = Fin y \<longrightarrow> y \<le> 0"
    by (simp add: exact_rnd_def)
  have before: "\<exists>t t0 dt.
      (getImageTime example_api ?cam (toCsmPixel example_api
          (double_sub exact_rnd (fst (Fin 10, Fin 0)) (Fin 0),
           double_sub exact_rnd (snd (Fin 10, Fin 0)) (double_add exact_rnd (Fin 5) (Fin 5))))
         = Fin t
       \<or> getImageTime example_api ?cam (toCsmPixel example_api
          (double_add exact_rnd (fst (Fin 10, Fin 0)) (Fin 0),
           double_add exact_rnd (snd (Fin 10, Fin 0)) (double_add exact_rnd (Fin 5) (Fin 5))))
         = Fin t)
      \<and> m_t0Quat ?cam = Fin t0 \<and> m_dtQuat ?cam = Fin dt \<and> t \<le> t0 \<and> 0 < dt"
    unfolding fst_conv snd_conv t c
    by (intro exI [of _ "- 19 / 16"] exI [of _ 0] exI [of _ 1]) simp
  from win [THEN conjunct2, THEN conjunct2, THEN conjunct2, THEN conjunct1, rule_format,
            OF conjI [OF sign before]]
  have z: "max 0 (min \<lceil>- 19 / 16 :: real\<rceil> \<lfloor>21 / 16 :: real\<rfloor> - 3) = 0"
    by simp
  note inst2 = resolve_window_truncates_and_clamps
               [of _ exact_rnd "Fin 34359738368" _ example_api ?cam "(Fin 10, Fin 0)",
                OF refl refl refl refl refl refl refl refl refl,
                THEN conjunct2, THEN conjunct2, THEN conjunct1, rule_format,
                unfolded fst_conv snd_conv]
  have u: "static_cast_int
        (double_div exact_rnd
           (double_sub exact_rnd
              (getImageTime example_api ?cam (toCsmPixel example_api
                 (double_sub exact_rnd (Fin 10) (Fin 0),
                  double_sub exact_rnd (Fin 0)
                    (double_add exact_rnd (Fin 34359738368) (Fin 5)))))
              (Fin 0)) (Fin 1)) = None"
    by (simp add: example_api_def double_add_def double_sub_def double_div_def exact_rnd_def
        static_cast_int_Fin)
  then have n: "resolve_window exact_rnd example_api (Fin 34359738368) ?cam (Fin 10, Fin 0)
                  = None"
    by (intro inst2 disjI1) (simp add: c)
  from t c q s1 s2 r r' z u n show ?thesis by simp
qed

text \<open>
  The claim words the conversion as \<open>floor((time - t0)/dt)\<close>. Half a step before \<open>t0\<close>
  the code's raw index is 0 and the floor is -1; for a camera whose trajectory starts at
  time 2 and an observation imaged around time 0 the window of the code ends at 5, that
  of the floor at 4. And the claim has every call end in a window or in the book-keeping
  error: with a maximal initial reprojection error of \<open>2\<^sup>3\<^sup>5\<close> pixels the first quotient is
  below the range of \<^verbatim>\<open>int\<close>, and the conversion, with it the call, has no defined
  behaviour.
\<close>

theorem floor_conversion_counterexample:
  "static_cast_int (double_div exact_rnd (double_sub exact_rnd (Fin (- 1 / 2)) (Fin 0)) (Fin 1))
     = Some 0
   \<and> \<lfloor>(- 1 / 2 - 0) / (1::real)\<rfloor> = - 1
   \<and> resolve_window exact_rnd example_api (Fin 5) (example_cam 2) (Fin 10, Fin 0) =
       Some (Inr \<lparr>begQuatIndex = 0, endQuatIndex = 5, begPosIndex = 0, endPosIndex = 5\<rparr>)
   \<and> spec_floor_window 8 20 2 1 (- 19 / 16) (21 / 16) = (0, 4)
   \<and> double_div exact_rnd
        (double_sub exact_rnd
           (getImageTime example_api (example_cam 0) (toCsmPixel example_api
              (double_sub exact_rnd (Fin 10) (Fin 0),
               double_sub exact_rnd (Fin 0) (double_add exact_rnd (Fin 34359738368) (Fin 5)))))
           (Fin 0)) (Fin 1)
       = Fin (- 68719476745 / 16)
   \<and> resolve_window exact_rnd example_api (Fin 34359738368) (example_cam 0) (Fin 10, Fin 0)
       = None"
proof -
  have "resolve_window exact_rnd example_api (Fin 5) (example_cam 2) (Fin 10, Fin 0) =
       Some (Inr \<lparr>begQuatIndex = 0, endQuatIndex = 5, begPosIndex = 0, endPosIndex = 5\<rparr>)"
    unfolding resolve_window_def example_times
    by (simp add: quat_window_def pos_window_def example_cam_def index_window_def
        example_quotients static_cast_int_Fin example_index int_add_def int_sub_def
        int_of_size_def INT_MIN_def INT_MAX_def NUM_QUAT_PARAMS_def NUM_XYZ_PARAMS_def)
  moreover have "spec_floor_window 8 20 2 1 (- 19 / 16) (21 / 16) = (0, 4)"
    by (simp add: spec_floor_window_def example_index)
  moreover have "static_cast_int
      (double_div exact_rnd (double_sub exact_rnd (Fin (- 1 / 2)) (Fin 0)) (Fin 1)) = Some 0"
    by (simp add: example_quotients static_cast_int_def INT_MIN_def INT_MAX_def)
  moreover have "\<lfloor>(- 1 / 2 - 0) / (1::real)\<rfloor> = - 1"
    by (rule floor_unique) simp_all
  moreover have t: "observation_times exact_rnd example_api (Fin 34359738368) (example_cam 0)
                   (Fin 10, Fin 0) = (Fin (- 68719476745 / 16), Fin (68719476747 / 16))"
    by (simp add: observation_times_def example_api_def Let_def double_add_def double_sub_def
        exact_rnd_def)
  moreover have q: "double_div exact_rnd
        (double_sub exact_rnd
           (getImageTime example_api (example_cam 0) (toCsmPixel example_api
              (double_sub exact_rnd (Fin 10) (Fin 0),
               double_sub exact_rnd (Fin 0) (double_add exact_rnd (Fin 34359738368) (Fin 5)))))
           (Fin 0)) (Fin 1)
       = Fin (- 68719476745 / 16)"
    by (simp add: example_api_def double_add_def double_sub_def double_div_def exact_rnd_def)
  moreover have "resolve_window exact_rnd example_api (Fin 34359738368) (example_cam 0)
                   (Fin 10, Fin 0) = None"
  proof -
    have "static_cast_int (Fin (- 68719476745 / 16)) = None"
      by (simp add: static_cast_int_Fin)
    then have "quat_window exact_rnd (example_cam 0)
                 (Fin (- 68719476745 / 16), Fin (68719476747 / 16)) = None"
      by (simp add: quat_window_def example_cam_def index_window_def example_quotients)
    then show ?thesis
      unfolding resolve_window_def t by simp
  qed
  ultimately show ?thesis by blast
qed

section \<open>Properties of the reprojection residual\<close>

lemma le_div_iff_int:
  fixes n b j :: int
  assumes "0 < n"
  shows "b \<le> j div n \<longleftrightarrow> n * b \<le> j"
proof -
  define q r where "q = j div n" and "r = j mod n"
  have j: "j = n * q + r" by (simp add: q_def r_def)
  have r: "0 \<le> r" "r < n" using assms by (simp_all add: r_def)
  show ?thesis
  proof (cases "b \<le> q")
    case True
    then have "n * b \<le> n * q" using assms by (simp add: mult_left_mono)
    with True j r show ?thesis unfolding q_def [symmetric] by linarith
  next
    case False
    then have "q + 1 \<le> b" by simp
    then have "n * (q + 1) \<le> n * b" using assms by (simp add: mult_left_mono)
    then have "n * q + n \<le> n * b" by (simp add: algebra_simps)
    with False j r show ?thesis unfolding q_def [symmetric] by linarith
  qed
qed

lemma div_less_iff_int:
  fixes n e j :: int
  assumes "0 < n"
  shows "j div n < e \<longleftrightarrow> j < n * e"
  using le_div_iff_int [OF assms, of e j] by linarith

lemma update_coords_fold:
  assumes "0 \<le> k" "k < int (length ps)" "\<forall>c\<in>set cs. c < length (ps ! nat k)"
    and "0 \<le> i" "\<forall>c\<in>set cs. int n * i + int c < int (length v)"
  shows "update_coords n ps k i cs v =
           Some (fold (\<lambda>c w. w[nat (int n * i + int c) := ps ! nat k ! c]) cs v)"
  using assms
proof (induction cs arbitrary: v)
  case Nil
  then show ?case by simp
next
  case (Cons c cs)
  have "0 \<le> int n * i + int c" using Cons.prems(4) by simp
  then show ?case
    using Cons by (simp add: read_param_def write_sample_def)
qed

lemma length_fold_update:
  "length (fold (\<lambda>c w. w[g c := h c]) cs v) = length v"
  by (induction cs arbitrary: v) simp_all

lemma nth_fold_update_other:
  "\<forall>c\<in>set cs. g c \<noteq> j \<Longrightarrow> fold (\<lambda>c w. w[g c := h c]) cs v ! j = v ! j"
  by (induction cs arbitrary: v) simp_all

lemma nth_fold_update_hit:
  assumes "\<exists>c\<in>set cs. g c = j" "\<forall>c\<in>set cs. g c = j \<longrightarrow> h c = x" "j < length v"
  shows "fold (\<lambda>c w. w[g c := h c]) cs v ! j = x"
  using assms
proof (induction cs arbitrary: v)
  case Nil
  then show ?case by simp
next
  case (Cons a cs)
  show ?case
  proof (cases "\<exists>c\<in>set cs. g c = j")
    case True
    then show ?thesis using Cons by simp
  next
    case False
    then have "\<forall>c\<in>set cs. g c \<noteq> j" by blast
    then have "fold (\<lambda>c w. w[g c := h c]) cs (v[g a := h a]) ! j = (v[g a := h a]) ! j"
      by (rule nth_fold_update_other)
    moreover from False Cons.prems have "g a = j" "h a = x" by auto
    ultimately show ?thesis using Cons.prems by simp
  qed
qed

text \<open>The positions written for sample i are n*i .. n*i + n - 1.\<close>

lemma sample_slot:
  assumes "0 < n" "0 \<le> i"
  shows "(\<exists>c\<in>set [0..<n]. nat (int n * i + int c) = j) \<longleftrightarrow> int j div int n = i"
proof
  assume "\<exists>c\<in>set [0..<n]. nat (int n * i + int c) = j"
  then obtain c where c: "c < n" "nat (int n * i + int c) = j" by auto
  from assms have "0 \<le> int n * i" by simp
  with c have "int j = int n * i + int c" by linarith
  moreover have "(int n * i + int c) div int n = i"
    using c(1) assms(1) by simp
  ultimately show "int j div int n = i" by simp
next
  assume d: "int j div int n = i"
  have "int j = int n * (int j div int n) + int j mod int n" by simp
  then have "int j = int n * i + int (j mod n)" using d by (simp add: zmod_int)
  then have "nat (int n * i + int (j mod n)) = j" by linarith
  moreover have "j mod n < n" using assms(1) by simp
  ultimately show "\<exists>c\<in>set [0..<n]. nat (int n * i + int c) = j" by auto
qed


lemma nth_sample_written:
  assumes "0 < n" "0 \<le> i" "j < length v"
  shows "fold (\<lambda>c w. w[nat (int n * i + int c) := b ! c]) [0..<n] v ! j =
           (if int j div int n = i then b ! (j mod n) else v ! j)"
proof (cases "int j div int n = i")
  case True
  then have ex: "\<exists>c\<in>set [0..<n]. nat (int n * i + int c) = j"
    using sample_slot [OF assms(1,2)] by simp
  have "\<forall>c\<in>set [0..<n]. nat (int n * i + int c) = j \<longrightarrow> b ! c = b ! (j mod n)"
  proof (intro ballI impI)
    fix c assume c: "c \<in> set [0..<n]" "nat (int n * i + int c) = j"
    from assms have "0 \<le> int n * i" by simp
    with c have "int j = int n * i + int c" by linarith
    then have "int j mod int n = int c" using c(1) by simp
    then have "j mod n = c" by (metis nat_int zmod_int)
    then show "b ! c = b ! (j mod n)" by simp
  qed
  with ex assms(3) True show ?thesis
    by (simp add: nth_fold_update_hit)
next
  case False
  then have "\<forall>c\<in>set [0..<n]. nat (int n * i + int c) \<noteq> j"
    using sample_slot [OF assms(1,2)] by blast
  with False show ?thesis
    by (simp add: nth_fold_update_other)
qed

lemma update_samples_fold:
  assumes "\<forall>i\<in>set is. 0 \<le> i \<and> 0 \<le> i + off \<and> i + off < int (length ps)
              \<and> n \<le> length (ps ! nat (i + off)) \<and> int n * i + int n \<le> int (length v)"
  shows "update_samples n ps off is v =
           Some (fold (\<lambda>i w. fold (\<lambda>c w. w[nat (int n * i + int c) := ps ! nat (i + off) ! c])
                                  [0..<n] w) is v)"
  using assms
proof (induction "is" arbitrary: v)
  case Nil
  then show ?case by simp
next
  case (Cons i "is")
  have "update_coords n ps (i + off) i [0..<n] v =
          Some (fold (\<lambda>c w. w[nat (int n * i + int c) := ps ! nat (i + off) ! c]) [0..<n] v)"
    using Cons.prems by (intro update_coords_fold) auto
  moreover have "\<forall>i'\<in>set is. 0 \<le> i' \<and> 0 \<le> i' + off \<and> i' + off < int (length ps)
              \<and> n \<le> length (ps ! nat (i' + off))
              \<and> int n * i' + int n
                  \<le> int (length (fold (\<lambda>c w. w[nat (int n * i + int c) := ps ! nat (i + off) ! c])
                                    [0..<n] v))"
    using Cons.prems by (simp add: length_fold_update)
  ultimately show ?case
    using Cons.IH by simp
qed

lemma length_samples_written:
  "length (fold (\<lambda>i w. fold (\<lambda>c w. w[g i c := h i c]) cs w) is v) = length v"
  by (induction "is" arbitrary: v) (simp_all add: length_fold_update)

lemma nth_samples_written:
  assumes "0 < n" "\<forall>i\<in>set is. 0 \<le> i" "j < length v"
  shows "fold (\<lambda>i w. fold (\<lambda>c w. w[nat (int n * i + int c) := ps ! nat (i + off) ! c])
                        [0..<n] w) is v ! j =
           (if int j div int n \<in> set is then ps ! nat (int j div int n + off) ! (j mod n)
            else v ! j)"
  using assms(2,3)
proof (induction "is" arbitrary: v)
  case Nil
  then show ?case by simp
next
  case (Cons i "is")
  let ?w = "fold (\<lambda>c w. w[nat (int n * i + int c) := ps ! nat (i + off) ! c]) [0..<n] v"
  have len: "j < length ?w" using Cons.prems by (simp add: length_fold_update)
  have w: "?w ! j = (if int j div int n = i then ps ! nat (i + off) ! (j mod n) else v ! j)"
    using Cons.prems assms(1) by (intro nth_sample_written) auto
  have "\<forall>i\<in>set is. 0 \<le> i" using Cons.prems by simp
  from Cons.IH [OF this len] w show ?case by auto
qed


lemma window_written:
  assumes n: "0 < n" and b: "0 \<le> beg" and e: "e \<le> int (length v div n)"
    and blocks: "\<forall>i. beg \<le> i \<and> i < e \<longrightarrow>
                   0 \<le> i + off \<and> i + off < int (length ps) \<and> n \<le> length (ps ! nat (i + off))"
  shows "\<exists>v'. update_samples n ps off (upto beg (e - 1)) v = Some v' \<and> length v' = length v
           \<and> (\<forall>j<length v. v' ! j =
                 (if int n * beg \<le> int j \<and> int j < int n * e
                  then ps ! nat (int j div int n + off) ! (j mod n) else v ! j))"
proof -
  let ?is = "upto beg (e - 1)"
  let ?v' = "fold (\<lambda>i w. fold (\<lambda>c w. w[nat (int n * i + int c) := ps ! nat (i + off) ! c])
                            [0..<n] w) ?is v"
  have fit: "int n * i + int n \<le> int (length v)" if "i < e" for i
  proof -
    from that have "i + 1 \<le> e" by simp
    then have "int n * (i + 1) \<le> int n * e" by (simp add: mult_left_mono)
    also have "\<dots> \<le> int n * int (length v div n)" using e by (simp add: mult_left_mono)
    also have "\<dots> \<le> int (length v)"
      by (metis of_nat_mult of_nat_le_iff mult.commute div_times_less_eq_dividend)
    finally show ?thesis by (simp add: algebra_simps)
  qed
  have "\<forall>i\<in>set ?is. 0 \<le> i \<and> 0 \<le> i + off \<and> i + off < int (length ps)
              \<and> n \<le> length (ps ! nat (i + off)) \<and> int n * i + int n \<le> int (length v)"
    using b blocks fit by auto
  then have run: "update_samples n ps off ?is v = Some ?v'"
    by (rule update_samples_fold)
  have len: "length ?v' = length v"
    by (rule length_samples_written)
  have nonneg: "\<forall>i\<in>set ?is. 0 \<le> i" using b by auto
  have nth: "?v' ! j = (if int n * beg \<le> int j \<and> int j < int n * e
                        then ps ! nat (int j div int n + off) ! (j mod n) else v ! j)"
    if "j < length v" for j
  proof -
    have "int j div int n \<in> set ?is \<longleftrightarrow> int n * beg \<le> int j \<and> int j < int n * e"
      using n le_div_iff_int [of "int n" beg "int j"] div_less_iff_int [of "int n" "int j" e]
      by auto
    then show ?thesis
      using nth_samples_written [OF n nonneg that, of ps off] by simp
  qed
  from run len nth show ?thesis by blast
qed

lemma local_cam_written:
  assumes wf: "well_formed_call store r parameters"
  shows "\<exists>qs ps. local_cam store r parameters
                    = Some ((store ! m_ls_model r)\<lparr>m_quaternions := qs, m_positions := ps\<rparr>)
          \<and> length qs = length (m_quaternions (store ! m_ls_model r))
          \<and> (\<forall>j<length qs. qs ! j =
                (if 4 * m_begQuatIndex r \<le> int j \<and> int j < 4 * m_endQuatIndex r
                 then parameters ! nat (int j div 4 - m_begQuatIndex r) ! (j mod 4)
                 else m_quaternions (store ! m_ls_model r) ! j))
          \<and> length ps = length (m_positions (store ! m_ls_model r))
          \<and> (\<forall>j<length ps. ps ! j =
                (if 3 * m_begPosIndex r \<le> int j \<and> int j < 3 * m_endPosIndex r
                 then parameters ! nat (int j div 3 - m_begPosIndex r
                                        + (m_endQuatIndex r - m_begQuatIndex r)) ! (j mod 3)
                 else m_positions (store ! m_ls_model r) ! j))"
proof -
  let ?cam = "store ! m_ls_model r"
  let ?nq = "m_endQuatIndex r - m_begQuatIndex r"
  from wf have ptr: "m_ls_model r < length store"
    and bq: "0 \<le> m_begQuatIndex r" "m_begQuatIndex r \<le> m_endQuatIndex r"
    and eq: "m_endQuatIndex r \<le> int (length (m_quaternions ?cam) div 4)"
    and bp: "0 \<le> m_begPosIndex r" "m_begPosIndex r \<le> m_endPosIndex r"
    and ep: "m_endPosIndex r \<le> int (length (m_positions ?cam) div 3)"
    and len: "int (length parameters) = ?nq + (m_endPosIndex r - m_begPosIndex r) + 1"
    and blk: "\<forall>k < length parameters. length (parameters ! k) = (if int k < ?nq then 4 else 3)"
    by (simp_all add: well_formed_call_def NUM_QUAT_PARAMS_def NUM_XYZ_PARAMS_def)
  have qblocks: "\<forall>i. m_begQuatIndex r \<le> i \<and> i < m_endQuatIndex r \<longrightarrow>
       0 \<le> i + (0 - m_begQuatIndex r) \<and> i + (0 - m_begQuatIndex r) < int (length parameters)
       \<and> 4 \<le> length (parameters ! nat (i + (0 - m_begQuatIndex r)))"
  proof (intro allI impI)
    fix i assume i: "m_begQuatIndex r \<le> i \<and> i < m_endQuatIndex r"
    let ?k = "nat (i + (0 - m_begQuatIndex r))"
    from i len bp have k: "?k < length parameters" "int ?k < ?nq" by linarith+
    with blk have "length (parameters ! ?k) = 4" by simp
    with i k show "0 \<le> i + (0 - m_begQuatIndex r) \<and> i + (0 - m_begQuatIndex r) < int (length parameters)
       \<and> 4 \<le> length (parameters ! ?k)" by simp
  qed
  have pblocks: "\<forall>i. m_begPosIndex r \<le> i \<and> i < m_endPosIndex r \<longrightarrow>
       0 \<le> i + (?nq - m_begPosIndex r) \<and> i + (?nq - m_begPosIndex r) < int (length parameters)
       \<and> 3 \<le> length (parameters ! nat (i + (?nq - m_begPosIndex r)))"
  proof (intro allI impI)
    fix i assume i: "m_begPosIndex r \<le> i \<and> i < m_endPosIndex r"
    let ?k = "nat (i + (?nq - m_begPosIndex r))"
    from i len bq have k: "?k < length parameters" "\<not> int ?k < ?nq" by linarith+
    with blk have "length (parameters ! ?k) = 3" by simp
    with i k bq show "0 \<le> i + (?nq - m_begPosIndex r) \<and> i + (?nq - m_begPosIndex r) < int (length parameters)
       \<and> 3 \<le> length (parameters ! ?k)" by simp
  qed
  from window_written [of 4 "m_begQuatIndex r" "m_endQuatIndex r" "m_quaternions ?cam"
      "0 - m_begQuatIndex r" parameters] bq eq qblocks
  obtain qs where qs: "update_samples 4 parameters (0 - m_begQuatIndex r)
                         (upto (m_begQuatIndex r) (m_endQuatIndex r - 1)) (m_quaternions ?cam) = Some qs"
      "length qs = length (m_quaternions ?cam)"
      "\<forall>j<length (m_quaternions ?cam). qs ! j =
                (if int 4 * m_begQuatIndex r \<le> int j \<and> int j < int 4 * m_endQuatIndex r
                 then parameters ! nat (int j div int 4 + (0 - m_begQuatIndex r)) ! (j mod 4)
                 else m_quaternions ?cam ! j)"
    by auto
  from window_written [of 3 "m_begPosIndex r" "m_endPosIndex r" "m_positions ?cam"
      "?nq - m_begPosIndex r" parameters] bp ep pblocks
  obtain ps where ps: "update_samples 3 parameters (?nq - m_begPosIndex r)
                         (upto (m_begPosIndex r) (m_endPosIndex r - 1)) (m_positions ?cam) = Some ps"
      "length ps = length (m_positions ?cam)"
      "\<forall>j<length (m_positions ?cam). ps ! j =
                (if int 3 * m_begPosIndex r \<le> int j \<and> int j < int 3 * m_endPosIndex r
                 then parameters ! nat (int j div int 3 + (?nq - m_begPosIndex r)) ! (j mod 3)
                 else m_positions ?cam ! j)"
    by auto
  have "local_cam store r parameters = Some (?cam\<lparr>m_quaternions := qs, m_positions := ps\<rparr>)"
    using ptr qs(1) ps(1)
    by (simp add: local_cam_def NUM_QUAT_PARAMS_def NUM_XYZ_PARAMS_def Let_def)
  moreover have "\<forall>j<length qs. qs ! j =
                (if 4 * m_begQuatIndex r \<le> int j \<and> int j < 4 * m_endQuatIndex r
                 then parameters ! nat (int j div 4 - m_begQuatIndex r) ! (j mod 4)
                 else m_quaternions ?cam ! j)"
    using qs(2,3) by simp
  moreover have "\<forall>j<length ps. ps ! j =
                (if 3 * m_begPosIndex r \<le> int j \<and> int j < 3 * m_endPosIndex r
                 then parameters ! nat (int j div 3 - m_begPosIndex r + ?nq) ! (j mod 3)
                 else m_positions ?cam ! j)"
    using ps(2,3) by (simp add: algebra_simps)
  ultimately show ?thesis using qs(2) ps(2) by blast
qed

lemma param_point_defined:
  assumes wf: "well_formed_call store r parameters"
  shows "\<exists>P. param_point r parameters = Some P"
proof -
  let ?s = "(m_endQuatIndex r - m_begQuatIndex r) + (m_endPosIndex r - m_begPosIndex r)"
  from wf have len: "int (length parameters) = ?s + 1"
    and bq: "m_begQuatIndex r \<le> m_endQuatIndex r" and bp: "m_begPosIndex r \<le> m_endPosIndex r"
    and blk: "\<forall>k < length parameters. length (parameters ! k)
                = (if int k < m_endQuatIndex r - m_begQuatIndex r then 4 else 3)"
    by (simp_all add: well_formed_call_def NUM_QUAT_PARAMS_def NUM_XYZ_PARAMS_def)
  from len bq bp have k: "0 \<le> ?s" "?s < int (length parameters)" "nat ?s < length parameters"
    "\<not> int (nat ?s) < m_endQuatIndex r - m_begQuatIndex r" by linarith+
  with blk have l3: "length (parameters ! nat ?s) = 3" by simp
  then have "parameters ! nat ?s \<noteq> []" by auto
  with k l3 show ?thesis
    by (simp add: param_point_def read_param_def Let_def)
qed

text \<open>
  C8. A call the solver makes leaves the store of the shared cameras as it found it. The
  local copy differs from the camera pointed to in its quaternions and positions only,
  and there only inside the windows: the components of the quaternions \<open>begQuatIndex\<close> to
  \<open>endQuatIndex - 1\<close> (indices \<open>4 * begQuatIndex\<close> to \<open>4 * endQuatIndex - 1\<close>) hold the
  values of the first parameter blocks, those of the positions of the window the values
  of the blocks after them, and every other component is the one of the shared camera.
  The copy is not part of what the call returns.
\<close>

theorem evaluate_residual_frame:
  assumes "well_formed_call store r parameters"
  shows "\<exists>out cam.
           evaluate_residual api r store parameters = Some (out, store)
         \<and> local_cam store r parameters = Some cam
         \<and> cam = (store ! m_ls_model r)\<lparr>m_quaternions := m_quaternions cam,
                                           m_positions := m_positions cam\<rparr>
         \<and> length (m_quaternions cam) = length (m_quaternions (store ! m_ls_model r))
         \<and> (\<forall>j<length (m_quaternions cam). m_quaternions cam ! j =
               (if 4 * m_begQuatIndex r \<le> int j \<and> int j < 4 * m_endQuatIndex r
                then parameters ! nat (int j div 4 - m_begQuatIndex r) ! (j mod 4)
                else m_quaternions (store ! m_ls_model r) ! j))
         \<and> length (m_positions cam) = length (m_positions (store ! m_ls_model r))
         \<and> (\<forall>j<length (m_positions cam). m_positions cam ! j =
               (if 3 * m_begPosIndex r \<le> int j \<and> int j < 3 * m_endPosIndex r
                then parameters ! nat (int j div 3 - m_begPosIndex r
                                       + (m_endQuatIndex r - m_begQuatIndex r)) ! (j mod 3)
                else m_positions (store ! m_ls_model r) ! j))"
proof -
  from local_cam_written [OF assms] obtain qs ps where
    cam: "local_cam store r parameters
            = Some ((store ! m_ls_model r)\<lparr>m_quaternions := qs, m_positions := ps\<rparr>)"
    and q: "length qs = length (m_quaternions (store ! m_ls_model r))"
      "\<forall>j<length qs. qs ! j =
                (if 4 * m_begQuatIndex r \<le> int j \<and> int j < 4 * m_endQuatIndex r
                 then parameters ! nat (int j div 4 - m_begQuatIndex r) ! (j mod 4)
                 else m_quaternions (store ! m_ls_model r) ! j)"
    and p: "length ps = length (m_positions (store ! m_ls_model r))"
      "\<forall>j<length ps. ps ! j =
                (if 3 * m_begPosIndex r \<le> int j \<and> int j < 3 * m_endPosIndex r
                 then parameters ! nat (int j div 3 - m_begPosIndex r
                                        + (m_endQuatIndex r - m_begQuatIndex r)) ! (j mod 3)
                 else m_positions (store ! m_ls_model r) ! j)"
    by blast
  from param_point_defined [OF assms] obtain P where P: "param_point r parameters = Some P"
    by blast
  let ?cam = "(store ! m_ls_model r)\<lparr>m_quaternions := qs, m_positions := ps\<rparr>"
  have "\<exists>out. evaluate_residual api r store parameters = Some (out, store)"
    using cam P
    by (simp add: evaluate_residual_def Let_def split: sum.split)
  then obtain out where "evaluate_residual api r store parameters = Some (out, store)" ..
  moreover have "?cam = (store ! m_ls_model r)\<lparr>m_quaternions := m_quaternions ?cam,
                                           m_positions := m_positions ?cam\<rparr>" by simp
  ultimately show ?thesis
    using cam q p by (intro exI [of _ out] exI [of _ ?cam]) simp
qed

text \<open>
  The two branches of the call that end as the specification has them. When the
  projection of the point through the local copy, asked for with the tolerance
  \<open>10\<^sup>-\<^sup>1\<^sup>2\<close>, throws an exception derived from \<^verbatim>\<open>std::exception\<close>, the call returns
  \<open>true\<close> with both residuals 1000; when it returns an image point, the call returns
  \<open>true\<close> with the pixel of that point minus the observation.
\<close>

lemma evaluate_residual_penalty:
  assumes "well_formed_call store r parameters"
  shows "\<exists>cam P. local_cam store r parameters = Some cam \<and> param_point r parameters = Some P
         \<and> (\<forall>e. groundToImage api cam P (Fin (1 / 10 ^ 12)) = Inl e \<and> is_std_exception e \<longrightarrow>
               evaluate_residual api r store parameters
                 = Some (Returns True (Fin 1000, Fin 1000), store))
         \<and> (\<forall>imagePt. groundToImage api cam P (Fin (1 / 10 ^ 12)) = Inr imagePt \<longrightarrow>
               evaluate_residual api r store parameters
                 = Some (Returns True
                           (fst (fromCsmPixel api imagePt) - fst (m_observation r),
                            snd (fromCsmPixel api imagePt) - snd (m_observation r)), store))"
proof -
  from local_cam_written [OF assms] obtain cam where
    cam: "local_cam store r parameters = Some cam" by blast
  from param_point_defined [OF assms] obtain P where P: "param_point r parameters = Some P"
    by blast
  show ?thesis
    using cam P
    by (auto simp add: evaluate_residual_def Let_def g_big_pixel_value_def)
qed

lemma example_well_formed: "well_formed_call example_store example_residual (example_parameters z)"
  by (simp add: well_formed_call_def example_store_def example_residual_def
      example_parameters_def example_cam_def NUM_QUAT_PARAMS_def NUM_XYZ_PARAMS_def
      nth_Cons split: nat.split)


lemma example_param_point:
  "param_point example_residual (example_parameters z) = Some (Fin 20, Fin 30, z)"
  by (simp add: param_point_def read_param_def example_residual_def example_parameters_def)

theorem evaluate_residual_frame_witness:
  "well_formed_call example_store example_residual (example_parameters (Fin 0))
   \<and> (\<exists>out cam.
         evaluate_residual example_api example_residual example_store (example_parameters (Fin 0))
           = Some (out, example_store)
       \<and> local_cam example_store example_residual (example_parameters (Fin 0)) = Some cam
       \<and> m_quaternions cam ! 3 = Fin 0 \<and> m_quaternions cam ! 4 = Fin 1
       \<and> m_quaternions cam ! 11 = Fin 8 \<and> m_quaternions cam ! 12 = Fin 0
       \<and> m_positions cam ! 2 = Fin 11 \<and> m_positions cam ! 3 = Fin 0)"
proof -
  let ?ps = "example_parameters (Fin 0)"
  have wf: "well_formed_call example_store example_residual ?ps"
    by (rule example_well_formed)
  from evaluate_residual_frame [OF wf, of example_api] obtain out cam where
    ev: "evaluate_residual example_api example_residual example_store ?ps = Some (out, example_store)"
    and lc: "local_cam example_store example_residual ?ps = Some cam"
    and lq: "length (m_quaternions cam) = length (m_quaternions (example_store ! m_ls_model example_residual))"
    and q: "\<forall>j<length (m_quaternions cam). m_quaternions cam ! j =
               (if 4 * m_begQuatIndex example_residual \<le> int j \<and> int j < 4 * m_endQuatIndex example_residual
                then ?ps ! nat (int j div 4 - m_begQuatIndex example_residual) ! (j mod 4)
                else m_quaternions (example_store ! m_ls_model example_residual) ! j)"
    and lp: "length (m_positions cam) = length (m_positions (example_store ! m_ls_model example_residual))"
    and p: "\<forall>j<length (m_positions cam). m_positions cam ! j =
               (if 3 * m_begPosIndex example_residual \<le> int j \<and> int j < 3 * m_endPosIndex example_residual
                then ?ps ! nat (int j div 3 - m_begPosIndex example_residual
                                       + (m_endQuatIndex example_residual - m_begQuatIndex example_residual)) ! (j mod 3)
                else m_positions (example_store ! m_ls_model example_residual) ! j)"
    by blast
  from lq have lq': "length (m_quaternions cam) = 80"
    by (simp add: example_store_def example_residual_def example_cam_def)
  from lp have lp': "length (m_positions cam) = 60"
    by (simp add: example_store_def example_residual_def example_cam_def)
  have "m_quaternions cam ! 3 = Fin 0" "m_quaternions cam ! 4 = Fin 1"
       "m_quaternions cam ! 11 = Fin 8" "m_quaternions cam ! 12 = Fin 0"
    using q [rule_format, of 3] q [rule_format, of 4] q [rule_format, of 11]
      q [rule_format, of 12] lq'
    by (simp_all add: example_store_def example_residual_def example_cam_def
        example_parameters_def)
  moreover have "m_positions cam ! 2 = Fin 11" "m_positions cam ! 3 = Fin 0"
    using p [rule_format, of 2] p [rule_format, of 3] lp'
    by (simp_all add: example_store_def example_residual_def example_cam_def
        example_parameters_def)
  ultimately show ?thesis using wf ev lc by blast
qed

lemma example_residual_penalty:
  "well_formed_call example_store example_residual (example_parameters NaN)
   \<and> is_std_exception StdException
   \<and> evaluate_residual example_api example_residual example_store (example_parameters NaN)
       = Some (Returns True (Fin 1000, Fin 1000), example_store)"
proof -
  let ?ps = "example_parameters NaN"
  have wf: "well_formed_call example_store example_residual ?ps"
    by (rule example_well_formed)
  from evaluate_residual_penalty [OF wf, of example_api] obtain cam P where
    P: "param_point example_residual ?ps = Some P"
    and thrown: "\<forall>e. groundToImage example_api cam P (Fin (1 / 10 ^ 12)) = Inl e \<and> is_std_exception e \<longrightarrow>
               evaluate_residual example_api example_residual example_store ?ps
                 = Some (Returns True (Fin 1000, Fin 1000), example_store)"
    by blast
  from P have "P = (Fin 20, Fin 30, NaN)" by (simp add: example_param_point)
  then have "groundToImage example_api cam P (Fin (1 / 10 ^ 12)) = Inl StdException"
    by (simp add: example_api_def)
  with thrown have "evaluate_residual example_api example_residual example_store ?ps
                 = Some (Returns True (Fin 1000, Fin 1000), example_store)" by simp
  with wf show ?thesis by simp
qed

text \<open>The other branch on the example: the projection returns, and the residual
  is the projected pixel minus the observation \<open>(10, 0)\<close>.\<close>

lemma example_residual_value:
  "evaluate_residual example_api example_residual example_store (example_parameters (Fin 0))
     = Some (Returns True (Fin (19 / 2), Fin (77 / 2)), example_store)"
  by (simp add: evaluate_residual_def local_cam_def param_point_def read_param_def
      write_sample_def example_store_def example_residual_def example_parameters_def
      example_cam_def example_api_def NUM_QUAT_PARAMS_def NUM_XYZ_PARAMS_def
      upto.simps upt_rec numeral_eq_Suc)

text \<open>
  C2. The claim has every failure of the projection end in the penalty 1000 and in a
  successful evaluation, and so has the code in its comment (\<^verbatim>\<open>accept the solution
  anyway\<close>); the outlier filter of the same file, which projects the same points, takes
  every exception with \<^verbatim>\<open>catch (...)\<close>. The clause of the residual is
  \<^verbatim>\<open>catch (std::exception const& e)\<close>: when \<^verbatim>\<open>groundToImage\<close> throws an object of a class
  that is not derived from \<^verbatim>\<open>std::exception\<close>, the exception leaves the call; no residual
  is set, nothing is returned, and the solver that made the call receives the exception.
\<close>

theorem foreign_exception_leaves_residual:
  "groundToImage foreign_api (example_cam 0) (Fin 20, Fin 30, Fin 0) (Fin (1 / 10 ^ 12))
       = Inl ForeignException
   \<and> \<not> is_std_exception ForeignException
   \<and> evaluate_residual foreign_api example_residual example_store (example_parameters (Fin 0))
       = Some (Throws ForeignException, example_store)
   \<and> evaluate_residual foreign_api example_residual example_store (example_parameters (Fin 0))
       \<noteq> Some (Returns True (g_big_pixel_value, g_big_pixel_value), example_store)"
proof -
  from local_cam_written [OF example_well_formed, of "Fin 0"] obtain cam where
    "local_cam example_store example_residual (example_parameters (Fin 0)) = Some cam" by blast
  then have "evaluate_residual foreign_api example_residual example_store
               (example_parameters (Fin 0)) = Some (Throws ForeignException, example_store)"
    by (simp add: evaluate_residual_def example_param_point foreign_api_def)
  then show ?thesis
    by (simp add: foreign_api_def)
qed

section \<open>Properties of the outlier filter\<close>

lemma flag_features_char:
  "flag_features cams tri mx icam fs S =
     (if asserts_hold cams tri icam fs
      then Inr (S \<union> {m_point_id f | f. f \<in> set fs \<and> rejected cams tri mx icam f})
      else Inl ArgumentErr)"
proof (induction fs arbitrary: S)
  case Nil
  then show ?case by (simp add: asserts_hold_def)
next
  case (Cons f fs)
  show ?case
  proof (cases "icam < length cams \<and> m_point_id f < length tri")
    case False
    then show ?thesis by (auto simp: asserts_hold_def Let_def)
  next
    case True
    then have ah: "asserts_hold cams tri icam (f # fs) = asserts_hold cams tri icam fs"
      by (auto simp: asserts_hold_def)
    show ?thesis
    proof (cases "asserts_hold cams tri icam fs")
      case False
      with True ah show ?thesis
        by (simp add: Cons.IH Let_def split: sum.split)
    next
      case ok: True
      have step: "flag_features cams tri mx icam (f # fs) S =
          Inr ((if m_point_id f \<in> S \<or> \<not> rejected cams tri mx icam f then S
                else insert (m_point_id f) S)
               \<union> {m_point_id g | g. g \<in> set fs \<and> rejected cams tri mx icam g})"
        using True ok
        by (auto simp add: Cons.IH Let_def rejected_def is_good_def split: sum.split)
      show ?thesis
        unfolding step using ah ok by auto
    qed
  qed
qed

lemma flag_cameras_char:
  "flag_cameras cams tri mx crn icams S =
     (if \<forall>icam\<in>set icams. asserts_hold cams tri icam (crn ! icam)
      then Inr (S \<union> {m_point_id f | f icam. icam \<in> set icams \<and> f \<in> set (crn ! icam)
                                        \<and> rejected cams tri mx icam f})
      else Inl ArgumentErr)"
proof (induction icams arbitrary: S)
  case Nil
  then show ?case by simp
next
  case (Cons icam icams)
  show ?case
    by (auto simp add: flag_features_char Cons.IH)
qed

lemma flag_outliers_char:
  "flag_outliers cams tri mx crn S =
     (if \<forall>icam<length crn. asserts_hold cams tri icam (crn ! icam)
      then Inr (S \<union> {m_point_id f | f icam. icam < length crn \<and> f \<in> set (crn ! icam)
                                        \<and> rejected cams tri mx icam f})
      else Inl ArgumentErr)"
  by (simp add: flag_outliers_def flag_cameras_char)

lemma flag_outliers_again:
  assumes "flag_outliers cams tri mx crn S0 = Inr S1"
  shows "flag_outliers cams tri mx crn S1 = Inr S1"
proof -
  let ?B = "{m_point_id f | f icam. icam < length crn \<and> f \<in> set (crn ! icam)
                                        \<and> rejected cams tri mx icam f}"
  from assms have ok: "\<forall>icam<length crn. asserts_hold cams tri icam (crn ! icam)"
    and S1: "S1 = S0 \<union> ?B"
    by (auto simp add: flag_outliers_char split: if_splits)
  from S1 have "S1 \<union> ?B = S1" by blast
  with ok show ?thesis by (simp add: flag_outliers_char)
qed

lemma add_blocks_features_skip:
  "add_blocks_features rnd api mx cams outliers icam fs problem = Some (Inr problem') \<Longrightarrow>
   \<forall>b\<in>set problem'. b \<in> set problem \<or> rb_ipt b \<notin> outliers"
proof (induction fs arbitrary: problem)
  case Nil
  then show ?case by simp
next
  case (Cons f fs)
  show ?case
  proof (cases "m_point_id f \<in> outliers")
    case True
    with Cons show ?thesis by simp
  next
    case False
    with Cons.prems obtain w where
      "add_blocks_features rnd api mx cams outliers icam fs
         (problem @ [\<lparr>rb_observation = m_location f, rb_icam = icam,
                      rb_ipt = m_point_id f, rb_window = w\<rparr>]) = Some (Inr problem')"
      by (auto simp: Let_def split: option.splits sum.splits)
    from Cons.IH [OF this] False show ?thesis by auto
  qed
qed

lemma add_blocks_cameras_skip:
  "add_blocks_cameras rnd api mx cams outliers crn icams problem = Some (Inr problem') \<Longrightarrow>
   \<forall>b\<in>set problem'. b \<in> set problem \<or> rb_ipt b \<notin> outliers"
proof (induction icams arbitrary: problem)
  case Nil
  then show ?case by simp
next
  case (Cons icam icams)
  from Cons.prems obtain p1 where
    p1: "add_blocks_features rnd api mx cams outliers icam (crn ! icam) problem = Some (Inr p1)"
    and rest: "add_blocks_cameras rnd api mx cams outliers crn icams p1 = Some (Inr problem')"
    by (auto split: option.splits sum.splits)
  from add_blocks_features_skip [OF p1] Cons.IH [OF rest] show ?case by blast
qed

lemma add_residual_blocks_skip:
  "add_residual_blocks rnd api mx cams outliers crn = Some (Inr problem) \<Longrightarrow>
   \<forall>b\<in>set problem. rb_ipt b \<notin> outliers"
  using add_blocks_cameras_skip [of rnd api mx cams outliers crn "[0..<length crn]" "[]" problem]
  by (simp add: add_residual_blocks_def)

lemma dbl_le_norm_2_Fin:
  "dbl_le (norm_2 (vec2_sub (Fin px, Fin py) (Fin ox, Fin oy))) (Fin m) \<longleftrightarrow>
     0 \<le> m \<and> (px - ox) * (px - ox) + (py - oy) * (py - oy) \<le> m * m"
proof -
  let ?s = "(px - ox) * (px - ox) + (py - oy) * (py - oy)"
  have s: "0 \<le> ?s" by simp
  have "sqrt ?s \<le> m \<longleftrightarrow> 0 \<le> m \<and> ?s \<le> m * m"
  proof
    assume le: "sqrt ?s \<le> m"
    have "0 \<le> sqrt ?s" using s by simp
    with le have "0 \<le> m" by linarith
    moreover from le have "?s \<le> m\<^sup>2" by (rule sqrt_le_D)
    ultimately show "0 \<le> m \<and> ?s \<le> m * m" by (simp add: power2_eq_square)
  next
    assume "0 \<le> m \<and> ?s \<le> m * m"
    then show "sqrt ?s \<le> m" by (intro real_le_lsqrt) (simp_all add: power2_eq_square)
  qed
  moreover have "\<not> ?s < 0" using s by linarith
  ultimately show ?thesis by simp
qed

lemma example_outliers:
  "initial_outliers example_cameras example_tri_points (Fin 5) example_crn = Inr {Suc 0, 2}"
  by (simp add: initial_outliers_def flag_outliers_def example_cameras_def
      example_tri_points_def example_crn_def is_good_def dbl_le_norm_2_Fin upt_rec
      insert_commute)

lemma example_times_second:
  "observation_times exact_rnd example_api (Fin 5) (example_cam t0) (Fin 13, Fin 4)
     = (Fin (- 11 / 16), Fin (29 / 16))"
  by (simp add: observation_times_def example_api_def Let_def double_add_def double_sub_def
      exact_rnd_def)

lemma example_resolve_window_second:
  "resolve_window exact_rnd example_api (Fin 5) (example_cam 0) (Fin 13, Fin 4) =
     Some (Inr \<lparr>begQuatIndex = 0, endQuatIndex = 6, begPosIndex = 0, endPosIndex = 6\<rparr>)"
proof -
  have i: "\<lceil>- 11 / 16 :: real\<rceil> = 0" "\<lfloor>29 / 16 :: real\<rfloor> = 1"
    by (rule ceiling_unique floor_unique; simp)+
  show ?thesis
    unfolding resolve_window_def example_times_second
    by (simp add: quat_window_def pos_window_def example_cam_def index_window_def
        example_quotients static_cast_int_Fin i int_add_def int_sub_def
        int_of_size_def INT_MIN_def INT_MAX_def NUM_QUAT_PARAMS_def NUM_XYZ_PARAMS_def)
qed

lemma example_blocks:
  "add_residual_blocks exact_rnd example_api (Fin 5) example_cameras {Suc 0, 2} example_crn =
     Some (Inr [\<lparr>rb_observation = (Fin 10, Fin 0), rb_icam = 0, rb_ipt = 0,
            rb_window = \<lparr>begQuatIndex = 0, endQuatIndex = 6, begPosIndex = 0, endPosIndex = 6\<rparr>\<rparr>,
          \<lparr>rb_observation = (Fin 13, Fin 4), rb_icam = Suc 0, rb_ipt = 0,
            rb_window = \<lparr>begQuatIndex = 0, endQuatIndex = 6, begPosIndex = 0, endPosIndex = 6\<rparr>\<rparr>])"
proof -
  have c: "ls_cam (example_cameras ! 0) = example_cam 0"
    "ls_cam (example_cameras ! Suc 0) = example_cam 0"
    by (simp_all add: example_cameras_def)
  show ?thesis
    by (simp add: add_residual_blocks_def example_crn_def upt_rec c
        example_resolve_window example_resolve_window_second)
qed

lemma example_setup:
  "setup_problem exact_rnd example_api (Fin 5) example_cameras example_tri_points example_crn =
     Some (Inr ({Suc 0, 2},
          [\<lparr>rb_observation = (Fin 10, Fin 0), rb_icam = 0, rb_ipt = 0,
            rb_window = \<lparr>begQuatIndex = 0, endQuatIndex = 6, begPosIndex = 0, endPosIndex = 6\<rparr>\<rparr>,
          \<lparr>rb_observation = (Fin 13, Fin 4), rb_icam = Suc 0, rb_ipt = 0,
            rb_window = \<lparr>begQuatIndex = 0, endQuatIndex = 6, begPosIndex = 0, endPosIndex = 6\<rparr>\<rparr>]))"
proof -
  have "length example_cameras = 2" "length example_tri_points = 3" "length example_crn = 2"
    by (simp_all add: example_cameras_def example_tri_points_def example_crn_def)
  then show ?thesis
    by (simp add: setup_problem_def example_outliers example_blocks)
qed

text \<open>
  C3. When the set-up of the problem succeeds, the outliers are those of the filter started
  from the empty set, and the blocks are those built with that set. Every observation
  whose triangulated point the camera cannot project (an exception of any kind), or whose
  projection does not lie within the maximal initial reprojection error of the
  observation (beyond it, or not comparable because a value is NaN), has its tie point
  among the outliers; every outlier has such an observation; and no block handed to the
  solver belongs to a tie point among the outliers, whichever of its observations the
  block is for.
\<close>

theorem outliers_flagged_and_skipped:
  assumes "setup_problem rnd api mx cams tri crn = Some (Inr (outliers, problem))"
  shows "initial_outliers cams tri mx crn = Inr outliers
       \<and> add_residual_blocks rnd api mx cams outliers crn = Some (Inr problem)
       \<and> (\<forall>icam<length crn. \<forall>f\<in>set (crn ! icam).
             (case point_to_pixel (cams ! icam) (tri ! m_point_id f) of
                Inl e \<Rightarrow> True
              | Inr pix \<Rightarrow> \<not> dbl_le (norm_2 (vec2_sub pix (m_location f))) mx)
             \<longrightarrow> m_point_id f \<in> outliers)
       \<and> (\<forall>ipt\<in>outliers. \<exists>icam<length crn. \<exists>f\<in>set (crn ! icam).
             m_point_id f = ipt \<and> rejected cams tri mx icam f)
       \<and> (\<forall>b\<in>set problem. rb_ipt b \<notin> outliers)"
proof -
  from assms have io: "initial_outliers cams tri mx crn = Inr outliers"
    and rb: "add_residual_blocks rnd api mx cams outliers crn = Some (Inr problem)"
    by (auto simp: setup_problem_def split: if_splits option.splits sum.splits)
  from io have out: "outliers = {m_point_id f | f icam. icam < length crn \<and> f \<in> set (crn ! icam)
                                        \<and> rejected cams tri mx icam f}"
    by (auto simp add: initial_outliers_def flag_outliers_char split: if_splits)
  have "\<forall>icam<length crn. \<forall>f\<in>set (crn ! icam).
             (case point_to_pixel (cams ! icam) (tri ! m_point_id f) of
                Inl e \<Rightarrow> True
              | Inr pix \<Rightarrow> \<not> dbl_le (norm_2 (vec2_sub pix (m_location f))) mx)
             \<longrightarrow> m_point_id f \<in> outliers"
    unfolding out rejected_def [symmetric] by blast
  moreover have "\<forall>ipt\<in>outliers. \<exists>icam<length crn. \<exists>f\<in>set (crn ! icam).
             m_point_id f = ipt \<and> rejected cams tri mx icam f"
    unfolding out by blast
  moreover note add_residual_blocks_skip [OF rb]
  ultimately show ?thesis using io rb by blast
qed

theorem outliers_flagged_and_skipped_witness:
  "setup_problem exact_rnd example_api (Fin 5) example_cameras example_tri_points example_crn =
     Some (Inr ({Suc 0, 2},
          [\<lparr>rb_observation = (Fin 10, Fin 0), rb_icam = 0, rb_ipt = 0,
            rb_window = \<lparr>begQuatIndex = 0, endQuatIndex = 6, begPosIndex = 0, endPosIndex = 6\<rparr>\<rparr>,
          \<lparr>rb_observation = (Fin 13, Fin 4), rb_icam = Suc 0, rb_ipt = 0,
            rb_window = \<lparr>begQuatIndex = 0, endQuatIndex = 6, begPosIndex = 0, endPosIndex = 6\<rparr>\<rparr>]))
   \<and> rejected example_cameras example_tri_points (Fin 5) 0
        \<lparr>m_point_id = Suc 0, m_location = (Fin 20, Fin 80)\<rparr>
   \<and> initial_outliers example_cameras example_tri_points (Fin 5) example_crn = Inr {Suc 0, 2}
   \<and> rb_ipt \<lparr>rb_observation = (Fin 10, Fin 0), rb_icam = 0, rb_ipt = 0,
            rb_window = \<lparr>begQuatIndex = 0, endQuatIndex = 6, begPosIndex = 0, endPosIndex = 6\<rparr>\<rparr>
         \<notin> {Suc 0, 2}
   \<and> rb_ipt \<lparr>rb_observation = (Fin 13, Fin 4), rb_icam = Suc 0, rb_ipt = 0,
            rb_window = \<lparr>begQuatIndex = 0, endQuatIndex = 6, begPosIndex = 0, endPosIndex = 6\<rparr>\<rparr>
         \<notin> {Suc 0, 2}
   \<and> Suc 0 \<in> {Suc 0, 2::nat}"
proof -
  have "rejected example_cameras example_tri_points (Fin 5) 0
        \<lparr>m_point_id = Suc 0, m_location = (Fin 20, Fin 80)\<rparr>"
    by (simp add: rejected_def example_cameras_def example_tri_points_def dbl_le_norm_2_Fin)
  with outliers_flagged_and_skipped [OF example_setup] example_setup show ?thesis
    by simp
qed

text \<open>
  C9. Running the filter again over the same cameras, observations and triangulated
  points, from the outliers of the first run, ends with the same set of outliers.
\<close>

theorem flag_outliers_idempotent:
  assumes "initial_outliers cams tri mx crn = Inr outliers"
  shows "flag_outliers cams tri mx crn outliers = Inr outliers"
  using assms unfolding initial_outliers_def by (rule flag_outliers_again)

theorem flag_outliers_idempotent_witness:
  "initial_outliers example_cameras example_tri_points (Fin 5) example_crn = Inr {Suc 0, 2}
   \<and> flag_outliers example_cameras example_tri_points (Fin 5) example_crn {Suc 0, 2}
       = Inr {Suc 0, 2}"
  using flag_outliers_idempotent [OF example_outliers] example_outliers by simp


section \<open>Properties of the loading of cameras\<close>

text \<open>Each turn of the loop overwrites the flag: after the loop it is the one of the
  camera loaded last.\<close>

lemma load_cameras_loop_last:
  "load_cameras_loop api image_files camera_files approx (is @ [i]) state =
     (case load_cameras_loop api image_files camera_files approx is state of
        (stereo_session, single_threaded_camera, camera_models) \<Rightarrow>
          (case load_camera api (image_files ! i) (camera_files ! i) approx stereo_session of
             (stereo_session', model, single_threaded_camera') \<Rightarrow>
               (stereo_session', single_threaded_camera', camera_models[i := Some model])))"
proof (induction "is" arbitrary: state)
  case Nil
  show ?case by (cases state) (simp add: Let_def split: prod.split)
next
  case (Cons j "is")
  show ?case by (cases state) (simp add: Cons.IH Let_def split: prod.split)
qed

lemma threads_when_flag_set:
  "solver_num_threads True num_threads = 1 \<and> eval_num_threads True num_threads = 1"
  by (simp add: solver_num_threads_def eval_num_threads_def)

text \<open>
  C7 on two cameras, the first with a session that does not support multi-threading, the
  second with one that does. The claim has the flag set after \<^verbatim>\<open>load_cameras\<close>; the code
  leaves it unset, and the solver and the evaluation of the residuals get the eight
  threads of the options. With the two cameras in the other order the flag is set and
  both run on one thread.
\<close>

theorem load_cameras_flag_of_last_camera:
  "\<not> supports_multi_threading (create example_sessions ''csm'' ''a.cub'' ''a.json'')
   \<and> load_cameras example_sessions [''a.cub'', ''b.tif''] [''a.json'', ''b.json''] False ''csm''
       = Inr (''csm'', False, [Some ''a.json'', Some ''b.json''])
   \<and> jitter_threads example_sessions [''a.cub'', ''b.tif''] [''a.json'', ''b.json''] ''csm'' 8
       = Inr (8, 8)
   \<and> jitter_threads example_sessions [''b.tif'', ''a.cub''] [''b.json'', ''a.json''] ''csm'' 8
       = Inr (1, 1)"
  by (simp add: jitter_threads_def load_cameras_def load_camera_def example_sessions_def
      solver_num_threads_def eval_num_threads_def upt_rec Let_def)


section \<open>Properties of the Jacobian\<close>





lemma set_column_entry:
  "set_column J coord v (row, c) = (if c = coord \<and> row < 3 then vec3_at v row else J (row, c))"
  by (cases v) (auto simp add: set_column_def upt_rec [of 0] upt_rec [of 1] upt_rec [of 2] numeral_3_eq_3)

lemma fold_set_column:
  "fold (\<lambda>coord J. set_column J coord (f coord)) cs J0 (row, c) =
     (if c \<in> set cs \<and> row < 3 then vec3_at (f c) row else J0 (row, c))"
  by (induction cs arbitrary: J0) (auto simp add: set_column_entry)

lemma fill_jacobian_entry:
  "fill_jacobian api E tn rs (row, coord) =
     (if coord < 14 \<and> row < 3 then vec3_at (ned_diff api E tn rs coord) row else 0)"
  by (simp add: fill_jacobian_def fold_set_column)



lemma vec3_ne_self_iff:
  "vec3_ne (a, b, c) (a, b, c) \<longleftrightarrow> is_nan a \<or> is_nan b \<or> is_nan c"
  by (cases a; cases b; cases c) simp_all





lemma example_camera_rays:
  "camera_rays (Unadjusted (DG (example_dg dir shift turn cov)))
               (Unadjusted (DG (example_cam2 cov'))) example_pix example_pix
     = Inr (example_rays dir shift turn, example_dg dir shift turn cov)"
  by (simp add: camera_rays_def example_cam2_def example_dg_def example_rays_def comp_def)


lemma example_nominal:
  "nominal_point example_vw (example_rays (Fin 1, Fin 0, Fin 0) shift turn) = (Fin 1, Fin 1, Fin 0)"
  by (simp add: nominal_point_def example_vw_def example_rays_def)


lemma example_rays_nth:
  "k < 14 \<Longrightarrow> cam1_dirs (example_rays dir shift turn) ! Suc k = turn k"
  "k < 14 \<Longrightarrow> cam1_ctrs (example_rays dir shift turn) ! Suc k = shift k"
  "k < 14 \<Longrightarrow> cam2_dirs (example_rays dir shift turn) ! Suc k = (Fin 0, Fin 1, Fin 0)"
  "k < 14 \<Longrightarrow> cam2_ctrs (example_rays dir shift turn) ! Suc k = (Fin 0, Fin 0, Fin 0)"
  "cam1_dirs (example_rays dir shift turn) ! 0 = dir"
  "cam1_ctrs (example_rays dir shift turn) ! 0 = (Fin 0, Fin 0, Fin 0)"
  "cam2_dirs (example_rays dir shift turn) ! 0 = (Fin 0, Fin 1, Fin 0)"
  "cam2_ctrs (example_rays dir shift turn) ! 0 = (Fin 0, Fin 0, Fin 0)"
  by (simp_all add: example_rays_def)

lemma example_tri:
  assumes "coord < 7"
  shows "tri_plus example_vw (example_rays dir shift turn) coord =
           triangulate_pair example_vw (turn (2 * coord)) (shift (2 * coord))
             (Fin 0, Fin 1, Fin 0) (Fin 0, Fin 0, Fin 0)"
    and "tri_minus example_vw (example_rays dir shift turn) coord =
           triangulate_pair example_vw (turn (2 * coord + 1)) (shift (2 * coord + 1))
             (Fin 0, Fin 1, Fin 0) (Fin 0, Fin 0, Fin 0)"
proof -
  have i: "2 * coord + 1 = Suc (2 * coord)" "2 * coord + 2 = Suc (2 * coord + 1)" by simp_all
  from assms have k: "2 * coord < 14" "2 * coord + 1 < 14" by simp_all
  show "tri_plus example_vw (example_rays dir shift turn) coord =
           triangulate_pair example_vw (turn (2 * coord)) (shift (2 * coord))
             (Fin 0, Fin 1, Fin 0) (Fin 0, Fin 0, Fin 0)"
    unfolding tri_plus_def i using assms k(1) by (simp only: example_rays_nth if_True)
  show "tri_minus example_vw (example_rays dir shift turn) coord =
           triangulate_pair example_vw (turn (2 * coord + 1)) (shift (2 * coord + 1))
             (Fin 0, Fin 1, Fin 0) (Fin 0, Fin 0, Fin 0)"
    unfolding tri_minus_def i using assms k(2) by (simp only: example_rays_nth if_True)
qed






section \<open>NaN in the perturbed triangulations\<close>

lemma mat3_vec_nan: "vec3_ne v v \<Longrightarrow> mat3_vec E v = (NaN, NaN, NaN)"
  by (cases v; cases "fst v"; cases "fst (snd v)"; cases "snd (snd v)") auto

lemma vec3_sub_nan: "vec3_ne a a \<Longrightarrow> vec3_ne (vec3_sub a b) (vec3_sub a b)"
  by (cases a; cases b; cases "fst a"; cases "fst (snd a)"; cases "snd (snd a)") auto

lemma ned_diff_nan:
  assumes "vec3_ne (tri_plus api rs coord) (tri_plus api rs coord)
         \<or> vec3_ne (tri_minus api rs coord) (tri_minus api rs coord)"
  shows "ned_diff api E tn rs coord = (NaN, NaN, NaN)"
proof -
  from assms have "mat3_vec E (vec3_sub (tri_plus api rs coord) tn) = (NaN, NaN, NaN)
                 \<or> mat3_vec E (vec3_sub (tri_minus api rs coord) tn) = (NaN, NaN, NaN)"
    using mat3_vec_nan vec3_sub_nan by blast
  then show ?thesis
    by (cases "mat3_vec E (vec3_sub (tri_plus api rs coord) tn)";
        cases "mat3_vec E (vec3_sub (tri_minus api rs coord) tn)")
       (auto simp add: ned_diff_def)
qed

lemma sum_list_nan: "NaN \<in> set xs \<Longrightarrow> sum_list xs = (NaN::dbl)"
proof (induction xs)
  case Nil
  then show ?case by simp
next
  case (Cons x xs)
  then show ?case by (cases x; cases "sum_list xs") auto
qed

lemma mat_mul_nan_row:
  assumes "k < n" "is_nan (A (r, k))"
  shows "mat_mul n A B (r, c) = NaN"
proof -
  from assms(2) have "A (r, k) * B (k, c) = NaN" by (cases "A (r, k)") simp_all
  with assms(1) have "NaN \<in> set (map (\<lambda>k. A (r, k) * B (k, c)) [0..<n])"
    by (metis (mono_tags, lifting) atLeast0LessThan imageI image_set lessThan_iff set_upt)
  then show ?thesis by (simp add: mat_mul_def sum_list_nan)
qed

lemma propagate_nan:
  assumes "r < 3" "k < 14" "is_nan (J (r, k))"
  shows "propagate J C = Inl ArgumentErr"
proof -
  let ?P = "mat_mul 14 (mat_mul 14 J C) (transpose_mat J)"
  have JC: "mat_mul 14 J C (r, c) = NaN" for c
    using assms(2,3) by (rule mat_mul_nan_row)
  have P: "?P (r, c) = NaN" for c
    by (rule mat_mul_nan_row [of 0]) (simp_all add: JC)
  from assms(1) consider "r = 0" | "r = 1" | "r = 2" by linarith
  then have "is_nan (dbl_sqrt (det2 ?P)) \<or> is_nan (?P (2, 2))"
  proof cases
    case 1
    with P [of 0] show ?thesis by (simp add: det2_def)
  next
    case 2
    with P [of 1] have "det2 ?P = NaN" by (cases "?P (0, 0)") (simp_all add: det2_def)
    then show ?thesis by simp
  next
    case 3
    with P [of 2] show ?thesis by simp
  qed
  then show ?thesis
    by (cases "dbl_sqrt (det2 ?P)"; cases "?P (2, 2)") (auto simp add: propagate_def Let_def)
qed

lemma camera_rays_dg:
  assumes "camera_rays cam1 cam2 pix1 pix2 = Inr (rs, dg_cam1)"
  shows "\<exists>dg_cam2. dg_cast (unadjusted_model cam1) = Some dg_cam1
                 \<and> dg_cast (unadjusted_model cam2) = Some dg_cam2"
  using assms
  by (auto simp add: camera_rays_def Let_def split: if_splits option.splits)

lemma covariance_defined:
  assumes "dg_cast (unadjusted_model cam1) = Some dg_cam1"
          "dg_cast (unadjusted_model cam2) = Some dg_cam2"
  shows "\<exists>C. scaledSatelliteCovariance pf qf cam1 cam2 pix1 pix2 = Inr C"
  using assms by (simp add: scaledSatelliteCovariance_def Let_def)

text \<open>
  C10. Once the checks on the two cameras have passed, with the 14 perturbed copies the
  loop reads, and the nominal triangulation has no NaN component, the Jacobian is
  returned and no exception is thrown, whatever the perturbed triangulations give. If,
  for a variable \<open>coord\<close>, the plus or the minus triangulation has a NaN component, the
  three entries of column \<open>coord\<close> are NaN; the propagation of any covariance through
  this Jacobian then ends in the exception of the test \<^verbatim>\<open>ans != ans\<close>, and so does
  \<^verbatim>\<open>propagateCovariance\<close> on these cameras.
\<close>

theorem perturbed_failure_only_caught_later:
  assumes rays: "camera_rays cam1 cam2 pix1 pix2 = Inr (rs, dg_cam1)"
    and len: "15 \<le> length (cam1_dirs rs)"
    and nominal: "\<not> vec3_ne (nominal_point api rs) (nominal_point api rs)"
  shows "\<exists>J. scaledTriangulationJacobian api cam1 cam2 pix1 pix2 = Some (Inr J)
           \<and> (\<forall>coord<14.
                 vec3_ne (tri_plus api rs coord) (tri_plus api rs coord)
                 \<or> vec3_ne (tri_minus api rs coord) (tri_minus api rs coord) \<longrightarrow>
                   (\<forall>row<3. J (row, coord) = NaN)
                 \<and> (\<forall>C. propagate J C = Inl ArgumentErr)
                 \<and> (\<forall>pf qf. propagateCovariance api pf qf cam1 cam2 pix1 pix2
                              = Some (Inl ArgumentErr)))"
proof -
  let ?tn = "nominal_point api rs"
  let ?E = "ecef_to_ned api (datum dg_cam1) ?tn"
  let ?J = "fill_jacobian api ?E ?tn rs"
  have J: "scaledTriangulationJacobian api cam1 cam2 pix1 pix2 = Some (Inr ?J)"
    using rays len nominal by (simp add: scaledTriangulationJacobian_def Let_def)
  have "(\<forall>row<3. ?J (row, coord) = NaN) \<and> (\<forall>C. propagate ?J C = Inl ArgumentErr)
        \<and> (\<forall>pf qf. propagateCovariance api pf qf cam1 cam2 pix1 pix2 = Some (Inl ArgumentErr))"
    if coord: "coord < 14"
      and bad: "vec3_ne (tri_plus api rs coord) (tri_plus api rs coord)
              \<or> vec3_ne (tri_minus api rs coord) (tri_minus api rs coord)"
    for coord
  proof -
    have col: "?J (row, coord) = NaN" if "row < 3" for row
      using that coord by (simp add: fill_jacobian_entry ned_diff_nan [OF bad])
    then have "is_nan (?J (0, coord))" by simp
    then have fails: "propagate ?J C = Inl ArgumentErr" for C
      using coord propagate_nan [of 0 coord ?J C] by simp
    from camera_rays_dg [OF rays] obtain dg_cam2 where
      dg: "dg_cast (unadjusted_model cam1) = Some dg_cam1"
          "dg_cast (unadjusted_model cam2) = Some dg_cam2" by blast
    have "propagateCovariance api pf qf cam1 cam2 pix1 pix2 = Some (Inl ArgumentErr)" for pf qf
    proof -
      from covariance_defined [OF dg] obtain C where
        "scaledSatelliteCovariance pf qf cam1 cam2 pix1 pix2 = Inr C" by blast
      then show ?thesis by (simp add: propagateCovariance_def J fails)
    qed
    with col fails show ?thesis by blast
  qed
  with J show ?thesis by blast
qed

lemma example_cam3_rays:
  "camera_rays (Unadjusted (DG (example_cam3 cov))) (Unadjusted (DG (example_cam2 cov')))
       example_pix example_pix
     = Inr (example_rays (Fin 1, Fin 0, Fin 0) (\<lambda>k. (Fin 0, Fin 0, Fin 0))
              (\<lambda>k. if k = 0 then (Fin 0, Fin 1, Fin 0) else (Fin 1, Fin 0, Fin 0)),
            example_cam3 cov)"
  unfolding example_cam3_def by (rule example_camera_rays)

lemma example_cam3_plus:
  "tri_plus example_vw
     (example_rays (Fin 1, Fin 0, Fin 0) (\<lambda>k. (Fin 0, Fin 0, Fin 0))
        (\<lambda>k. if k = 0 then (Fin 0, Fin 1, Fin 0) else (Fin 1, Fin 0, Fin 0))) 0
   = (NaN, NaN, NaN)"
  using example_tri(1) [of 0 "(Fin 1, Fin 0, Fin 0)" "\<lambda>k. (Fin 0, Fin 0, Fin 0)"
      "\<lambda>k. if k = 0 then (Fin 0, Fin 1, Fin 0) else (Fin 1, Fin 0, Fin 0)"]
  by (simp add: example_vw_def)

theorem perturbed_failure_only_caught_later_witness:
  "camera_rays (Unadjusted (DG (example_cam3 0))) (Unadjusted (DG (example_cam2 0)))
       example_pix example_pix
     = Inr (example_rays (Fin 1, Fin 0, Fin 0) (\<lambda>k. (Fin 0, Fin 0, Fin 0))
              (\<lambda>k. if k = 0 then (Fin 0, Fin 1, Fin 0) else (Fin 1, Fin 0, Fin 0)),
            example_cam3 0)
   \<and> nominal_point example_vw
        (example_rays (Fin 1, Fin 0, Fin 0) (\<lambda>k. (Fin 0, Fin 0, Fin 0))
           (\<lambda>k. if k = 0 then (Fin 0, Fin 1, Fin 0) else (Fin 1, Fin 0, Fin 0)))
       = (Fin 1, Fin 1, Fin 0)
   \<and> tri_plus example_vw
        (example_rays (Fin 1, Fin 0, Fin 0) (\<lambda>k. (Fin 0, Fin 0, Fin 0))
           (\<lambda>k. if k = 0 then (Fin 0, Fin 1, Fin 0) else (Fin 1, Fin 0, Fin 0))) 0
       = (NaN, NaN, NaN)
   \<and> (\<exists>J. scaledTriangulationJacobian example_vw (Unadjusted (DG (example_cam3 0)))
              (Unadjusted (DG (example_cam2 0))) example_pix example_pix = Some (Inr J)
          \<and> J (0, 0) = NaN \<and> J (1, 0) = NaN \<and> J (2, 0) = NaN
          \<and> propagate J (\<lambda>rc. Fin 0) = Inl ArgumentErr)
   \<and> propagateCovariance example_vw (Fin 1) (Fin 1) (Unadjusted (DG (example_cam3 0)))
        (Unadjusted (DG (example_cam2 0))) example_pix example_pix = Some (Inl ArgumentErr)"
proof -
  let ?rs = "example_rays (Fin 1, Fin 0, Fin 0) (\<lambda>k. (Fin 0, Fin 0, Fin 0))
              (\<lambda>k. if k = 0 then (Fin 0, Fin 1, Fin 0) else (Fin 1, Fin 0, Fin 0))"
  have rays: "camera_rays (Unadjusted (DG (example_cam3 0))) (Unadjusted (DG (example_cam2 0)))
       example_pix example_pix = Inr (?rs, example_cam3 0)"
    by (rule example_cam3_rays)
  have len: "15 \<le> length (cam1_dirs ?rs)" by (simp add: example_rays_def)
  have nom: "nominal_point example_vw ?rs = (Fin 1, Fin 1, Fin 0)" by (rule example_nominal)
  then have fin: "\<not> vec3_ne (nominal_point example_vw ?rs) (nominal_point example_vw ?rs)"
    by simp
  have bad: "vec3_ne (tri_plus example_vw ?rs 0) (tri_plus example_vw ?rs 0)
           \<or> vec3_ne (tri_minus example_vw ?rs 0) (tri_minus example_vw ?rs 0)"
    by (simp add: example_cam3_plus)
  from perturbed_failure_only_caught_later [OF rays len fin] obtain J where
    J: "scaledTriangulationJacobian example_vw (Unadjusted (DG (example_cam3 0)))
              (Unadjusted (DG (example_cam2 0))) example_pix example_pix = Some (Inr J)"
    and all: "\<forall>coord<14.
                 vec3_ne (tri_plus example_vw ?rs coord) (tri_plus example_vw ?rs coord)
                 \<or> vec3_ne (tri_minus example_vw ?rs coord) (tri_minus example_vw ?rs coord) \<longrightarrow>
                   (\<forall>row<3. J (row, coord) = NaN)
                 \<and> (\<forall>C. propagate J C = Inl ArgumentErr)
                 \<and> (\<forall>pf qf. propagateCovariance example_vw pf qf
                       (Unadjusted (DG (example_cam3 0))) (Unadjusted (DG (example_cam2 0)))
                       example_pix example_pix = Some (Inl ArgumentErr))"
    by blast
  from all [rule_format, of 0] bad have
    col: "\<forall>row<3. J (row, 0) = NaN" and pr: "\<forall>C. propagate J C = Inl ArgumentErr"
    and pc: "\<forall>pf qf. propagateCovariance example_vw pf qf
                       (Unadjusted (DG (example_cam3 0))) (Unadjusted (DG (example_cam2 0)))
                       example_pix example_pix = Some (Inl ArgumentErr)"
    by simp_all
  from col have "J (0, 0) = NaN" "J (1, 0) = NaN" "J (2, 0) = NaN" by simp_all
  with rays nom example_cam3_plus J pr pc show ?thesis by blast
qed


section \<open>Properties of the satellite covariance\<close>

lemma insertBlock_3:
  "insertBlock s 3 v C =
     C((s, s) := v ! 0,
       (s, s + 1) := v ! 1, (s + 1, s) := v ! 1,
       (s, s + 2) := v ! 2, (s + 2, s) := v ! 2,
       (s + 1, s + 1) := v ! 3,
       (s + 1, s + 2) := v ! 4, (s + 2, s + 1) := v ! 4,
       (s + 2, s + 2) := v ! 5)"
  by (simp add: insertBlock_def upt_rec [of 0] upt_rec [of 1] upt_rec [of 2] upt_rec [of 3]
      eval_nat_numeral)

lemma insertBlock_4:
  "insertBlock s 4 v C =
     C((s, s) := v ! 0,
       (s, s + 1) := v ! 1, (s + 1, s) := v ! 1,
       (s, s + 2) := v ! 2, (s + 2, s) := v ! 2,
       (s, s + 3) := v ! 3, (s + 3, s) := v ! 3,
       (s + 1, s + 1) := v ! 4,
       (s + 1, s + 2) := v ! 5, (s + 2, s + 1) := v ! 5,
       (s + 1, s + 3) := v ! 6, (s + 3, s + 1) := v ! 6,
       (s + 2, s + 2) := v ! 7,
       (s + 2, s + 3) := v ! 8, (s + 3, s + 2) := v ! 8,
       (s + 3, s + 3) := v ! 9)"
  by (simp add: insertBlock_def upt_rec [of 0] upt_rec [of 1] upt_rec [of 2] upt_rec [of 3]
      upt_rec [of 4] eval_nat_numeral)

lemma insert_cols_frame:
  assumes "\<forall>col\<in>set cols. (start + row, start + col) \<noteq> (i, j)
                          \<and> (start + col, start + row) \<noteq> (i, j)"
  shows "snd (insert_cols start row v cols (count, C)) (i, j) = C (i, j)"
  using assms
proof (induction cols arbitrary: count C)
  case Nil
  show ?case by simp
next
  case (Cons col cols)
  let ?C = "C((start + row, start + col) := v ! count,
              (start + col, start + row) := v ! count)"
  from Cons.prems have ne: "(start + row, start + col) \<noteq> (i, j)"
    "(start + col, start + row) \<noteq> (i, j)"
    and rest: "\<forall>col\<in>set cols. (start + row, start + col) \<noteq> (i, j)
                          \<and> (start + col, start + row) \<noteq> (i, j)"
    by simp_all
  have "snd (insert_cols start row v cols (count + 1, ?C)) (i, j) = ?C (i, j)"
    using rest by (rule Cons.IH)
  also have "?C (i, j) = C (i, j)"
  proof -
    from ne(1) have a: "(i, j) \<noteq> (start + row, start + col)" by (rule not_sym)
    from ne(2) have b: "(i, j) \<noteq> (start + col, start + row)" by (rule not_sym)
    show ?thesis by (simp only: fun_upd_other [OF a] fun_upd_other [OF b])
  qed
  finally show ?case by (simp only: insert_cols.simps)
qed

lemma insert_rows_frame:
  assumes "\<forall>row\<in>set rows. row < n"
    and "\<not> (start \<le> i \<and> i < start + n \<and> start \<le> j \<and> j < start + n)"
  shows "snd (insert_rows start n v rows state) (i, j) = snd state (i, j)"
  using assms(1)
proof (induction rows arbitrary: state)
  case Nil
  then show ?case by simp
next
  case (Cons row rows)
  obtain count C where state: "state = (count, C)" by (cases state)
  have "\<forall>col\<in>set [row..<n]. (start + row, start + col) \<noteq> (i, j)
                          \<and> (start + col, start + row) \<noteq> (i, j)"
    using Cons.prems assms(2) by auto
  then have "snd (insert_cols start row v [row..<n] (count, C)) (i, j) = C (i, j)"
    by (rule insert_cols_frame)
  moreover have "snd (insert_rows start n v rows (insert_cols start row v [row..<n] state)) (i, j)
                 = snd (insert_cols start row v [row..<n] state) (i, j)"
    using Cons.prems by (intro Cons.IH) simp
  ultimately show ?case by (simp add: state)
qed

lemma insertBlock_outside:
  "\<not> (start \<le> i \<and> i < start + n \<and> start \<le> j \<and> j < start + n) \<Longrightarrow>
     insertBlock start n v C (i, j) = C (i, j)"
  using insert_rows_frame [of "[0..<n]" n start i j v "(0, C)"]
  by (simp add: insertBlock_def)

lemma upper_index_3:
  "upper_index 3 0 0 = 0" "upper_index 3 0 1 = 1" "upper_index 3 0 2 = 2"
  "upper_index 3 1 1 = 3" "upper_index 3 1 2 = 4" "upper_index 3 2 2 = 5"
  "upper_index 3 0 (Suc 0) = Suc 0" "upper_index 3 (Suc 0) (Suc 0) = 3"
  "upper_index 3 (Suc 0) 2 = 4"
  by (simp_all add: upper_index_def)

lemma upper_index_4:
  "upper_index 4 0 0 = 0" "upper_index 4 0 1 = 1" "upper_index 4 0 2 = 2" "upper_index 4 0 3 = 3"
  "upper_index 4 1 1 = 4" "upper_index 4 1 2 = 5" "upper_index 4 1 3 = 6"
  "upper_index 4 2 2 = 7" "upper_index 4 2 3 = 8" "upper_index 4 3 3 = 9"
  "upper_index 4 0 (Suc 0) = Suc 0" "upper_index 4 (Suc 0) (Suc 0) = 4"
  "upper_index 4 (Suc 0) 2 = 5" "upper_index 4 (Suc 0) 3 = 6"
  by (simp_all add: upper_index_def)

lemma insertBlock_3_inside:
  assumes "r \<le> c" "c < 3"
  shows "insertBlock s 3 v C (s + r, s + c) = v ! upper_index 3 r c"
    and "insertBlock s 3 v C (s + c, s + r) = v ! upper_index 3 r c"
proof -
  from assms have rc: "r = 0 \<and> c = 0 \<or> r = 0 \<and> c = 1 \<or> r = 0 \<and> c = 2
      \<or> r = 1 \<and> c = 1 \<or> r = 1 \<and> c = 2 \<or> r = 2 \<and> c = 2" by arith
  from rc show "insertBlock s 3 v C (s + r, s + c) = v ! upper_index 3 r c"
    by (elim disjE conjE) (simp_all add: insertBlock_3 upper_index_3)
  from rc show "insertBlock s 3 v C (s + c, s + r) = v ! upper_index 3 r c"
    by (elim disjE conjE) (simp_all add: insertBlock_3 upper_index_3)
qed

lemma insertBlock_4_inside:
  assumes "r \<le> c" "c < 4"
  shows "insertBlock s 4 v C (s + r, s + c) = v ! upper_index 4 r c"
    and "insertBlock s 4 v C (s + c, s + r) = v ! upper_index 4 r c"
proof -
  from assms have rc: "r = 0 \<and> c = 0 \<or> r = 0 \<and> c = 1 \<or> r = 0 \<and> c = 2 \<or> r = 0 \<and> c = 3
      \<or> r = 1 \<and> c = 1 \<or> r = 1 \<and> c = 2 \<or> r = 1 \<and> c = 3
      \<or> r = 2 \<and> c = 2 \<or> r = 2 \<and> c = 3 \<or> r = 3 \<and> c = 3" by arith
  from rc show "insertBlock s 4 v C (s + r, s + c) = v ! upper_index 4 r c"
    by (elim disjE conjE) (simp_all add: insertBlock_4 upper_index_4)
  from rc show "insertBlock s 4 v C (s + c, s + r) = v ! upper_index 4 r c"
    by (elim disjE conjE) (simp_all add: insertBlock_4 upper_index_4)
qed

lemma upper_index_bound:
  "r \<le> c \<Longrightarrow> c < 3 \<Longrightarrow> upper_index 3 r c < 6"
  "r \<le> c \<Longrightarrow> c < 4 \<Longrightarrow> upper_index 4 r c < 10"
proof -
  assume "r \<le> c" "c < 3"
  then have "r = 0 \<and> c = 0 \<or> r = 0 \<and> c = 1 \<or> r = 0 \<and> c = 2
      \<or> r = 1 \<and> c = 1 \<or> r = 1 \<and> c = 2 \<or> r = 2 \<and> c = 2" by arith
  then show "upper_index 3 r c < 6"
    by (elim disjE conjE) (simp_all add: upper_index_3)
next
  assume "r \<le> c" "c < 4"
  then have "r = 0 \<and> c = 0 \<or> r = 0 \<and> c = 1 \<or> r = 0 \<and> c = 2 \<or> r = 0 \<and> c = 3
      \<or> r = 1 \<and> c = 1 \<or> r = 1 \<and> c = 2 \<or> r = 1 \<and> c = 3
      \<or> r = 2 \<and> c = 2 \<or> r = 2 \<and> c = 3 \<or> r = 3 \<and> c = 3" by arith
  then show "upper_index 4 r c < 10"
    by (elim disjE conjE) (simp_all add: upper_index_4)
qed

lemma insertBlock_3_entry:
  "insertBlock s 3 v C (i, j) =
     (if s \<le> i \<and> i < s + 3 \<and> s \<le> j \<and> j < s + 3
      then v ! upper_index 3 (min (i - s) (j - s)) (max (i - s) (j - s)) else C (i, j))"
proof (cases "s \<le> i \<and> i < s + 3 \<and> s \<le> j \<and> j < s + 3")
  case False
  have "insertBlock s 3 v C (i, j) = C (i, j)"
    by (rule insertBlock_outside [OF False])
  also have "C (i, j) =
     (if s \<le> i \<and> i < s + 3 \<and> s \<le> j \<and> j < s + 3
      then v ! upper_index 3 (min (i - s) (j - s)) (max (i - s) (j - s)) else C (i, j))"
    using False by (rule if_not_P [symmetric])
  finally show ?thesis .
next
  case True
  define a b where "a = i - s" and "b = j - s"
  with True have ij: "i = s + a" "j = s + b" and ab: "a < 3" "b < 3" by auto
  have "insertBlock s 3 v C (s + a, s + b) = v ! upper_index 3 (min a b) (max a b)"
  proof (cases "a \<le> b")
    case True
    with ab show ?thesis by (simp add: insertBlock_3_inside(1) min_def max_def)
  next
    case False
    then have "b \<le> a" by simp
    with ab False show ?thesis by (simp add: insertBlock_3_inside(2) min_def max_def)
  qed
  with True show ?thesis unfolding a_def [symmetric] b_def [symmetric] ij [symmetric]
    by simp
qed

lemma insertBlock_4_entry:
  "insertBlock s 4 v C (i, j) =
     (if s \<le> i \<and> i < s + 4 \<and> s \<le> j \<and> j < s + 4
      then v ! upper_index 4 (min (i - s) (j - s)) (max (i - s) (j - s)) else C (i, j))"
proof (cases "s \<le> i \<and> i < s + 4 \<and> s \<le> j \<and> j < s + 4")
  case False
  have "insertBlock s 4 v C (i, j) = C (i, j)"
    by (rule insertBlock_outside [OF False])
  also have "C (i, j) =
     (if s \<le> i \<and> i < s + 4 \<and> s \<le> j \<and> j < s + 4
      then v ! upper_index 4 (min (i - s) (j - s)) (max (i - s) (j - s)) else C (i, j))"
    using False by (rule if_not_P [symmetric])
  finally show ?thesis .
next
  case True
  define a b where "a = i - s" and "b = j - s"
  with True have ij: "i = s + a" "j = s + b" and ab: "a < 4" "b < 4" by auto
  have "insertBlock s 4 v C (s + a, s + b) = v ! upper_index 4 (min a b) (max a b)"
  proof (cases "a \<le> b")
    case True
    with ab show ?thesis by (simp add: insertBlock_4_inside(1) min_def max_def)
  next
    case False
    then have "b \<le> a" by simp
    with ab False show ?thesis by (simp add: insertBlock_4_inside(2) min_def max_def)
  qed
  with True show ?thesis unfolding a_def [symmetric] b_def [symmetric] ij [symmetric]
    by simp
qed

lemma insertBlock_symmetric:
  assumes "\<forall>i j. C (i, j) = C (j, i)"
  shows "insertBlock s 3 v C (i, j) = insertBlock s 3 v C (j, i)"
    and "insertBlock s 4 v C (i, j) = insertBlock s 4 v C (j, i)"
  using assms
  by (simp_all add: insertBlock_3_entry insertBlock_4_entry min.commute max.commute conj_ac)

text \<open>
  C5. When the covariance is returned, both cameras are DigitalGlobe cameras and the 14 by
  14 matrix is symmetric, is zero wherever the row and the column lie in different
  blocks (rows 0 to 2, 3 to 6, 7 to 9 and 10 to 13), and holds in the upper triangle of
  each block, row by row, the interpolated values of that camera: each position value
  multiplied by the position factor and divided by \<open>deltaPosition\<^sup>2\<close>, each orientation
  value multiplied by the orientation factor and divided by \<open>deltaQuat\<^sup>2\<close>. With the
  symmetry this gives the lower triangles.
\<close>

theorem covariance_blocks:
  assumes "scaledSatelliteCovariance pf qf cam1 cam2 pix1 pix2 = Inr C"
  shows "\<exists>dg_cam1 dg_cam2.
           dg_cast (unadjusted_model cam1) = Some dg_cam1
         \<and> dg_cast (unadjusted_model cam2) = Some dg_cam2
         \<and> (\<forall>i j. C (i, j) = C (j, i))
         \<and> (\<forall>i<14. \<forall>j<14. block_of i \<noteq> block_of j \<longrightarrow> C (i, j) = Fin 0)
         \<and> (\<forall>r c. r \<le> c \<and> c < 3 \<longrightarrow>
               C (r, c) = dbl_div (pf * interpSatellitePosCov dg_cam1 pix1 (upper_index 3 r c))
                            (deltaPosition * deltaPosition)
             \<and> C (7 + r, 7 + c) = dbl_div (pf * interpSatellitePosCov dg_cam2 pix2 (upper_index 3 r c))
                            (deltaPosition * deltaPosition))
         \<and> (\<forall>r c. r \<le> c \<and> c < 4 \<longrightarrow>
               C (3 + r, 3 + c) = dbl_div (qf * interpSatelliteQuatCov dg_cam1 pix1 (upper_index 4 r c))
                            (deltaQuat * deltaQuat)
             \<and> C (10 + r, 10 + c) = dbl_div (qf * interpSatelliteQuatCov dg_cam2 pix2 (upper_index 4 r c))
                            (deltaQuat * deltaQuat))"
proof -
  from assms obtain dg_cam1 dg_cam2 where
    dg: "dg_cast (unadjusted_model cam1) = Some dg_cam1"
        "dg_cast (unadjusted_model cam2) = Some dg_cam2"
    by (auto simp add: scaledSatelliteCovariance_def Let_def split: option.splits)
  define p1 where "p1 = map (scale_pos pf) (map (interpSatellitePosCov dg_cam1 pix1) [0..<6])"
  define q1 where "q1 = map (scale_quat qf) (map (interpSatelliteQuatCov dg_cam1 pix1) [0..<10])"
  define p2 where "p2 = map (scale_pos pf) (map (interpSatellitePosCov dg_cam2 pix2) [0..<6])"
  define q2 where "q2 = map (scale_quat qf) (map (interpSatelliteQuatCov dg_cam2 pix2) [0..<10])"
  define C0 :: Matrix where "C0 = (\<lambda>rc. 0)"
  define C1 where "C1 = insertBlock 0 3 p1 C0"
  define C2 where "C2 = insertBlock 3 4 q1 C1"
  define C3 where "C3 = insertBlock 7 3 p2 C2"
  have C: "C = insertBlock 10 4 q2 C3"
    using assms dg
    by (simp add: scaledSatelliteCovariance_def Let_def SAT_POS_COV_SIZE_def
        SAT_QUAT_COV_SIZE_def p1_def q1_def p2_def q2_def C0_def C1_def C2_def C3_def)
  have p1: "p1 ! k = scale_pos pf (interpSatellitePosCov dg_cam1 pix1 k)" if "k < 6" for k
    using that by (simp add: p1_def)
  have p2: "p2 ! k = scale_pos pf (interpSatellitePosCov dg_cam2 pix2 k)" if "k < 6" for k
    using that by (simp add: p2_def)
  have q1: "q1 ! k = scale_quat qf (interpSatelliteQuatCov dg_cam1 pix1 k)" if "k < 10" for k
    using that by (simp add: q1_def)
  have q2: "q2 ! k = scale_quat qf (interpSatelliteQuatCov dg_cam2 pix2 k)" if "k < 10" for k
    using that by (simp add: q2_def)
  have sym0: "\<forall>i j. C0 (i, j) = C0 (j, i)" by (simp add: C0_def)
  have sym1: "\<forall>i j. C1 (i, j) = C1 (j, i)"
    unfolding C1_def using insertBlock_symmetric(1) [OF sym0] by blast
  have sym2: "\<forall>i j. C2 (i, j) = C2 (j, i)"
    unfolding C2_def using insertBlock_symmetric(2) [OF sym1] by blast
  have sym3: "\<forall>i j. C3 (i, j) = C3 (j, i)"
    unfolding C3_def using insertBlock_symmetric(1) [OF sym2] by blast
  have sym: "\<forall>i j. C (i, j) = C (j, i)"
    unfolding C using insertBlock_symmetric(2) [OF sym3] by blast
  have zero: "C (i, j) = Fin 0" if "i < 14" "j < 14" "block_of i \<noteq> block_of j" for i j
  proof -
    from that(3) have out: "\<not> (0 \<le> i \<and> i < 0 + 3 \<and> 0 \<le> j \<and> j < 0 + 3)"
      "\<not> (3 \<le> i \<and> i < 3 + 4 \<and> 3 \<le> j \<and> j < 3 + 4)"
      "\<not> (7 \<le> i \<and> i < 7 + 3 \<and> 7 \<le> j \<and> j < 7 + 3)"
      "\<not> (10 \<le> i \<and> i < 10 + 4 \<and> 10 \<le> j \<and> j < 10 + 4)"
      using that(1,2) by (auto simp add: block_of_def split: if_splits)
    have "C (i, j) = C3 (i, j)" unfolding C by (rule insertBlock_outside [OF out(4)])
    also have "\<dots> = C2 (i, j)" unfolding C3_def by (rule insertBlock_outside [OF out(3)])
    also have "\<dots> = C1 (i, j)" unfolding C2_def by (rule insertBlock_outside [OF out(2)])
    also have "\<dots> = C0 (i, j)" unfolding C1_def by (rule insertBlock_outside [OF out(1)])
    finally show ?thesis by (simp add: C0_def zero_dbl_def)
  qed
  have pos: "C (r, c) = dbl_div (pf * interpSatellitePosCov dg_cam1 pix1 (upper_index 3 r c))
                            (deltaPosition * deltaPosition)
           \<and> C (7 + r, 7 + c) = dbl_div (pf * interpSatellitePosCov dg_cam2 pix2 (upper_index 3 r c))
                            (deltaPosition * deltaPosition)"
    if rc: "r \<le> c" "c < 3" for r c
  proof -
    from rc have r: "r < 3" by simp
    have a: "\<not> (10 \<le> r \<and> r < 10 + 4 \<and> 10 \<le> c \<and> c < 10 + 4)"
            "\<not> (7 \<le> r \<and> r < 7 + 3 \<and> 7 \<le> c \<and> c < 7 + 3)"
            "\<not> (3 \<le> r \<and> r < 3 + 4 \<and> 3 \<le> c \<and> c < 3 + 4)"
            "\<not> (10 \<le> 7 + r \<and> 7 + r < 10 + 4 \<and> 10 \<le> 7 + c \<and> 7 + c < 10 + 4)"
      using rc r by simp_all
    have "C (r, c) = C3 (r, c)" unfolding C by (rule insertBlock_outside [OF a(1)])
    also have "\<dots> = C2 (r, c)" unfolding C3_def by (rule insertBlock_outside [OF a(2)])
    also have "\<dots> = C1 (r, c)" unfolding C2_def by (rule insertBlock_outside [OF a(3)])
    also have "\<dots> = p1 ! upper_index 3 r c"
      unfolding C1_def using insertBlock_3_inside(1) [OF rc, of 0 p1 C0] by simp
    finally have first: "C (r, c) = scale_pos pf (interpSatellitePosCov dg_cam1 pix1 (upper_index 3 r c))"
      using p1 [OF upper_index_bound(1) [OF rc]] by simp
    have "C (7 + r, 7 + c) = C3 (7 + r, 7 + c)"
      unfolding C by (rule insertBlock_outside [OF a(4)])
    also have "\<dots> = p2 ! upper_index 3 r c"
      unfolding C3_def by (rule insertBlock_3_inside(1) [OF rc])
    finally have "C (7 + r, 7 + c)
        = scale_pos pf (interpSatellitePosCov dg_cam2 pix2 (upper_index 3 r c))"
      using p2 [OF upper_index_bound(1) [OF rc]] by simp
    with first show ?thesis by (simp add: scale_pos_def)
  qed
  have quat: "C (3 + r, 3 + c) = dbl_div (qf * interpSatelliteQuatCov dg_cam1 pix1 (upper_index 4 r c))
                            (deltaQuat * deltaQuat)
           \<and> C (10 + r, 10 + c) = dbl_div (qf * interpSatelliteQuatCov dg_cam2 pix2 (upper_index 4 r c))
                            (deltaQuat * deltaQuat)"
    if rc: "r \<le> c" "c < 4" for r c
  proof -
    from rc have r: "r < 4" by simp
    have a: "\<not> (10 \<le> 3 + r \<and> 3 + r < 10 + 4 \<and> 10 \<le> 3 + c \<and> 3 + c < 10 + 4)"
            "\<not> (7 \<le> 3 + r \<and> 3 + r < 7 + 3 \<and> 7 \<le> 3 + c \<and> 3 + c < 7 + 3)"
      using rc r by simp_all
    have "C (3 + r, 3 + c) = C3 (3 + r, 3 + c)"
      unfolding C by (rule insertBlock_outside [OF a(1)])
    also have "\<dots> = C2 (3 + r, 3 + c)"
      unfolding C3_def by (rule insertBlock_outside [OF a(2)])
    also have "\<dots> = q1 ! upper_index 4 r c"
      unfolding C2_def by (rule insertBlock_4_inside(1) [OF rc])
    finally have first: "C (3 + r, 3 + c)
        = scale_quat qf (interpSatelliteQuatCov dg_cam1 pix1 (upper_index 4 r c))"
      using q1 [OF upper_index_bound(2) [OF rc]] by simp
    have "C (10 + r, 10 + c) = q2 ! upper_index 4 r c"
      unfolding C by (rule insertBlock_4_inside(1) [OF rc])
    then have "C (10 + r, 10 + c)
        = scale_quat qf (interpSatelliteQuatCov dg_cam2 pix2 (upper_index 4 r c))"
      using q2 [OF upper_index_bound(2) [OF rc]] by simp
    with first show ?thesis by (simp add: scale_quat_def)
  qed
  from dg sym zero pos quat show ?thesis by blast
qed

theorem covariance_blocks_witness:
  "\<exists>C. scaledSatelliteCovariance (Fin 2) (Fin 1)
          (Unadjusted (DG (example_cam1 (Fin (1 / 10000)))))
          (Unadjusted (DG (example_cam2 (Fin (1 / 10000))))) example_pix example_pix = Inr C
      \<and> C (0, 1) = Fin 2 \<and> C (1, 0) = Fin 2 \<and> C (8, 9) = Fin 2 \<and> C (0, 3) = Fin 0
      \<and> C (3, 4) = Fin 100000000 \<and> C (12, 13) = Fin 100000000 \<and> C (13, 12) = Fin 100000000"
proof -
  let ?c1 = "Unadjusted (DG (example_cam1 (Fin (1 / 10000))))"
  let ?c2 = "Unadjusted (DG (example_cam2 (Fin (1 / 10000))))"
  from covariance_defined [of ?c1 _ ?c2 _ "Fin 2" "Fin 1" example_pix example_pix]
  obtain C where C: "scaledSatelliteCovariance (Fin 2) (Fin 1) ?c1 ?c2 example_pix example_pix = Inr C"
    by auto
  from covariance_blocks [OF C] have
    sym: "\<forall>i j. C (i, j) = C (j, i)"
    and zero: "\<forall>i<14. \<forall>j<14. block_of i \<noteq> block_of j \<longrightarrow> C (i, j) = Fin 0"
    and pos: "\<forall>r c. r \<le> c \<and> c < 3 \<longrightarrow>
               C (r, c) = dbl_div (Fin 2 * interpSatellitePosCov (example_cam1 (Fin (1 / 10000)))
                                     example_pix (upper_index 3 r c))
                            (deltaPosition * deltaPosition)
             \<and> C (7 + r, 7 + c) = dbl_div (Fin 2 * interpSatellitePosCov
                                     (example_cam2 (Fin (1 / 10000))) example_pix (upper_index 3 r c))
                            (deltaPosition * deltaPosition)"
    and quat: "\<forall>r c. r \<le> c \<and> c < 4 \<longrightarrow>
               C (3 + r, 3 + c) = dbl_div (Fin 1 * interpSatelliteQuatCov
                                     (example_cam1 (Fin (1 / 10000))) example_pix (upper_index 4 r c))
                            (deltaQuat * deltaQuat)
             \<and> C (10 + r, 10 + c) = dbl_div (Fin 1 * interpSatelliteQuatCov
                                     (example_cam2 (Fin (1 / 10000))) example_pix (upper_index 4 r c))
                            (deltaQuat * deltaQuat)"
    by auto
  have cov: "interpSatellitePosCov (example_cam1 v) p k = v"
            "interpSatellitePosCov (example_cam2 v) p k = v"
            "interpSatelliteQuatCov (example_cam1 v) p k = v"
            "interpSatelliteQuatCov (example_cam2 v) p k = v" for v p k
    by (simp_all add: example_cam1_def example_cam2_def example_dg_def)
  from pos [rule_format, of 0 1] have c01: "C (0, 1) = Fin 2"
    by (simp add: cov deltaPosition_def)
  from pos [rule_format, of 1 2] have c89: "C (8, 9) = Fin 2"
    by (simp add: cov deltaPosition_def)
  from quat [rule_format, of 0 1] have c34: "C (3, 4) = Fin 100000000"
    by (simp add: cov deltaQuat_def)
  from quat [rule_format, of 2 3] have c1213: "C (12, 13) = Fin 100000000"
    by (simp add: cov deltaQuat_def)
  from zero [rule_format, of 0 3] have c03: "C (0, 3) = Fin 0"
    by (simp add: block_of_def)
  from sym c01 have c10: "C (1, 0) = Fin 2" by simp
  from sym c1213 have c1312: "C (13, 12) = Fin 100000000" by simp
  from C c01 c10 c89 c03 c34 c1213 c1312 show ?thesis by blast
qed


section \<open>Properties of the propagation\<close>














end
